theory Spec2Isabelle
  imports Complex_Main
begin

section \<open>Numbers and JavaScript idioms\<close>

text \<open>
  The engine computes on JavaScript numbers. They are modelled as real numbers: every
  arithmetic operation is the exact one, and NaN and the infinities have no counterpart.
  Wherever the source can produce them (a division by zero, a read of a missing array
  element) the model carries a guard or an \<open>option\<close>, or the theorem about that code
  names the inputs it covers. A field typed \<open>number | null\<close> is a \<open>real option\<close>.
\<close>

text \<open>\<open>x || d\<close> on a number: the default replaces 0 (and NaN, which no real is).\<close>

definition or_default :: "real \<Rightarrow> real \<Rightarrow> real" where
  "or_default x d = (if x = 0 then d else x)"

text \<open>\<open>xs[i]\<close>: reading outside the array yields undefined, here \<open>None\<close>.\<close>

definition js_index :: "'a list \<Rightarrow> int \<Rightarrow> 'a option" where
  "js_index xs i = (if 0 \<le> i \<and> i < int (length xs) then Some (xs ! nat i) else None)"

text \<open>\<open>xs[i]?.field || d\<close>: the default stands in for a missing record and for a zero field.\<close>

definition field_or :: "'a list \<Rightarrow> int \<Rightarrow> ('a \<Rightarrow> real) \<Rightarrow> real \<Rightarrow> real" where
  "field_or xs i f d = (case js_index xs i of None \<Rightarrow> d | Some r \<Rightarrow> or_default (f r) d)"

section \<open>Data model (providers/types.ts)\<close>

text \<open>Dates are instants, counted in milliseconds.\<close>

type_synonym Date = nat

record StockQuote =
  ticker :: string
  name :: string
  price :: real
  "open" :: real
  high :: real
  low :: real
  previousClose :: real
  change :: real
  changePercent :: real
  volume :: real
  marketCap :: real
  pe :: "real option"
  pb :: "real option"
  ps :: "real option"
  dividendYield :: "real option"
  week52High :: real
  week52Low :: real
  timestamp :: Date
  currency :: string
  exchange :: string

record IncomeStatement =
  fiscalYear :: string
  fiscalQuarter :: "string option"
  revenue :: real
  costOfRevenue :: real
  grossProfit :: real
  researchAndDevelopment :: "real option"
  sellingGeneralAdmin :: "real option"
  operatingIncome :: real
  interestExpense :: "real option"
  netIncome :: real
  eps :: real
  epsDiluted :: real
  ebitda :: real
  sharesOutstanding :: real
  reportDate :: string

record BalanceSheet =
  fiscalYear :: string
  fiscalQuarter :: "string option"
  totalAssets :: real
  currentAssets :: real
  cash :: real
  shortTermInvestments :: "real option"
  accountsReceivable :: "real option"
  inventory :: "real option"
  totalLiabilities :: real
  currentLiabilities :: real
  longTermDebt :: real
  totalDebt :: real
  totalEquity :: real
  retainedEarnings :: "real option"
  bookValuePerShare :: real
  reportDate :: string

record CashFlowStatement =
  fiscalYear :: string
  fiscalQuarter :: "string option"
  netIncome :: real
  depreciation :: real
  operatingCashFlow :: real
  capitalExpenditure :: real
  investingCashFlow :: real
  financingCashFlow :: real
  freeCashFlow :: real
  dividendsPaid :: "real option"
  stockRepurchases :: "real option"
  reportDate :: string

record Financials =
  ticker :: string
  incomeStatements :: "IncomeStatement list"
  balanceSheets :: "BalanceSheet list"
  cashFlowStatements :: "CashFlowStatement list"
  currency :: string
  lastUpdated :: Date

record CompanyProfile =
  ticker :: string
  name :: string
  description :: string
  sector :: string
  industry :: string
  employees :: "real option"
  website :: string
  country :: string
  ceo :: "string option"
  foundedYear :: "real option"
  ipoDate :: "string option"

section \<open>Margin of safety (analysis/margin-of-safety.ts)\<close>

datatype ValuationStatus = Undervalued | Fair | Overvalued

datatype RiskLevel = Low | Medium | High

record MarginThresholds =
  minimum :: real
  good :: real
  excellent :: real

text \<open>\<open>VALUE_INVESTING_THRESHOLDS.marginOfSafety\<close> of config/defaults.ts.\<close>

definition marginOfSafetyThresholds :: MarginThresholds where
  "marginOfSafetyThresholds = \<lparr> minimum = 0.25, good = 0.35, excellent = 0.50 \<rparr>"

record MarginOfSafetyResult =
  marginOfSafety :: real
  currentPrice :: real
  intrinsicValue :: real
  status :: ValuationStatus
  recommendation :: string
  riskLevel :: RiskLevel

definition calculateMarginOfSafety :: "real \<Rightarrow> real \<Rightarrow> MarginOfSafetyResult" where
  "calculateMarginOfSafety currentPrice' intrinsicValue' =
    (if intrinsicValue' \<le> 0 \<or> currentPrice' \<le> 0 then
       \<lparr> marginOfSafety = 0, currentPrice = currentPrice', intrinsicValue = intrinsicValue',
         status = Overvalued,
         recommendation = ''Unable to calculate - invalid values'',
         riskLevel = High \<rparr>
     else
       let m = (intrinsicValue' - currentPrice') / intrinsicValue';
           thresholds = marginOfSafetyThresholds;
           (status', recommendation', riskLevel') =
             (if m \<ge> excellent thresholds then
                (Undervalued,
                 ''Significantly undervalued with excellent margin of safety. '' @
                 ''Verify there are no fundamental problems causing the low price.'',
                 Low)
              else if m \<ge> good thresholds then
                (Undervalued,
                 ''Undervalued with good margin of safety. '' @
                 ''Consider for purchase if fundamentals are strong.'',
                 Low)
              else if m \<ge> minimum thresholds then
                (Undervalued,
                 ''Moderately undervalued with acceptable margin of safety. '' @
                 ''May be suitable for patient investors.'',
                 Medium)
              else if m \<ge> 0 then
                (Fair,
                 ''Trading near fair value with minimal safety margin. '' @
                 ''Wait for a better entry point unless you have high conviction.'',
                 Medium)
              else if m \<ge> - 0.25 then
                (Overvalued,
                 ''Moderately overvalued. Not recommended for value investors. '' @
                 ''Consider waiting for a price correction.'',
                 High)
              else
                (Overvalued,
                 ''Significantly overvalued. High risk of price decline. '' @
                 ''Avoid purchase and consider selling if held.'',
                 High))
       in \<lparr> marginOfSafety = m, currentPrice = currentPrice', intrinsicValue = intrinsicValue',
            status = status', recommendation = recommendation', riskLevel = riskLevel' \<rparr>)"

record CombinedMarginOfSafety =
  individual :: "string \<rightharpoonup> real option"
  averageIntrinsicValue :: real
  combinedMarginOfSafety :: real
  status :: ValuationStatus
  recommendation :: string

text \<open>
  The loop over \<open>Object.entries(valuations)\<close>: the state is the pair of the
  \<open>individual\<close> record and the \<open>validValues\<close> array.
\<close>

definition collectStep ::
  "real \<Rightarrow> string \<times> real option \<Rightarrow> (string \<rightharpoonup> real option) \<times> real list
     \<Rightarrow> (string \<rightharpoonup> real option) \<times> real list" where
  "collectStep currentPrice' entry st =
    (case (entry, st) of ((method, value), (indiv, validValues)) \<Rightarrow>
      (case value of
         Some v \<Rightarrow>
           if v > 0 then (indiv(method \<mapsto> Some ((v - currentPrice') / v)), validValues @ [v])
           else (indiv(method \<mapsto> None), validValues)
       | None \<Rightarrow> (indiv(method \<mapsto> None), validValues)))"

definition collectValuations ::
  "real \<Rightarrow> (string \<times> real option) list \<Rightarrow> (string \<rightharpoonup> real option) \<times> real list" where
  "collectValuations currentPrice' valuations =
     fold (collectStep currentPrice') valuations (Map.empty, [])"

definition calculateCombinedMarginOfSafety ::
  "real \<Rightarrow> (string \<times> real option) list \<Rightarrow> CombinedMarginOfSafety" where
  "calculateCombinedMarginOfSafety currentPrice' valuations =
    (case collectValuations currentPrice' valuations of (indiv, validValues) \<Rightarrow>
      (case validValues of
         [] \<Rightarrow>
           \<lparr> individual = indiv, averageIntrinsicValue = 0, combinedMarginOfSafety = - 1,
             status = Overvalued,
             recommendation = ''Unable to calculate - no valid valuation methods'' \<rparr>
       | v # vs \<Rightarrow>
           let conservativeValue = fold min vs v;
               averageValue = fold (\<lambda>b a. a + b) validValues 0 / real (length validValues);
               intrinsicValue' = min conservativeValue averageValue;
               combined = (intrinsicValue' - currentPrice') / intrinsicValue';
               result = calculateMarginOfSafety currentPrice' intrinsicValue'
           in \<lparr> individual = indiv, averageIntrinsicValue = intrinsicValue',
                combinedMarginOfSafety = combined,
                status = MarginOfSafetyResult.status result,
                recommendation = MarginOfSafetyResult.recommendation result \<rparr>))"

section \<open>Ratio calculator (analysis/ratios.ts)\<close>

text \<open>
  \<open>Math.pow(endValue / startValue, 1 / years)\<close> is only reached with a positive base,
  where it is the real power \<open>powr\<close>.
\<close>

definition calculateCAGR :: "real \<Rightarrow> real \<Rightarrow> int \<Rightarrow> real option" where
  "calculateCAGR startValue endValue years =
    (if startValue \<le> 0 \<or> endValue \<le> 0 \<or> years \<le> 0 then None
     else Some ((endValue / startValue) powr (1 / real_of_int years) - 1))"

record FinancialRatios =
  pe :: "real option"
  pb :: "real option"
  ps :: "real option"
  peg :: "real option"
  evToEbitda :: "real option"
  priceToFcf :: "real option"
  grossMargin :: real
  operatingMargin :: real
  netMargin :: real
  roe :: real
  roa :: real
  roic :: "real option"
  currentRatio :: real
  quickRatio :: real
  debtToEquity :: real
  debtToAssets :: real
  interestCoverage :: "real option"
  netDebtToEbitda :: "real option"
  fcfYield :: "real option"
  cashConversion :: "real option"
  capexToDepreciation :: "real option"
  revenueGrowth5Y :: "real option"
  epsGrowth5Y :: "real option"
  fcfGrowth5Y :: "real option"
  dividendGrowth5Y :: "real option"

definition getDefaultRatios :: FinancialRatios where
  "getDefaultRatios =
    \<lparr> pe = None, pb = None, ps = None, peg = None, evToEbitda = None, priceToFcf = None,
      grossMargin = 0, operatingMargin = 0, netMargin = 0, roe = 0, roa = 0, roic = None,
      currentRatio = 0, quickRatio = 0, debtToEquity = 0, debtToAssets = 0,
      interestCoverage = None, netDebtToEbitda = None,
      fcfYield = None, cashConversion = None, capexToDepreciation = None,
      revenueGrowth5Y = None, epsGrowth5Y = None, fcfGrowth5Y = None,
      dividendGrowth5Y = None \<rparr>"

text \<open>\<open>quote?.marketCap && c\<close>: a quote is there, its market cap is not 0, and \<open>c\<close>.\<close>

definition quoteMarketCap :: "StockQuote option \<Rightarrow> real option" where
  "quoteMarketCap quote =
    (case quote of None \<Rightarrow> None
     | Some q \<Rightarrow> if marketCap q = 0 then None else Some (marketCap q))"

definition calculateFinancialRatios :: "Financials \<Rightarrow> StockQuote option \<Rightarrow> FinancialRatios" where
  "calculateFinancialRatios financials quote =
    (case (js_index (incomeStatements financials) 0, js_index (balanceSheets financials) 0,
           js_index (cashFlowStatements financials) 0) of
       (Some income, Some balance, Some cashFlow) \<Rightarrow>
         let grossMargin' = (if revenue income > 0 then grossProfit income / revenue income else 0);
             operatingMargin' =
               (if revenue income > 0 then operatingIncome income / revenue income else 0);
             netMargin' =
               (if revenue income > 0 then IncomeStatement.netIncome income / revenue income
                else 0);
             roe' = (if totalEquity balance > 0
                     then IncomeStatement.netIncome income / totalEquity balance else 0);
             roa' = (if totalAssets balance > 0
                     then IncomeStatement.netIncome income / totalAssets balance else 0);
             estimatedTaxRate =
               (if IncomeStatement.netIncome income > 0 \<and> operatingIncome income > 0
                then 1 - IncomeStatement.netIncome income / operatingIncome income
                else 0.25);
             nopat = operatingIncome income * (1 - max 0 (min estimatedTaxRate 0.5));
             investedCapital = totalEquity balance + totalDebt balance - cash balance;
             roic' = (if investedCapital > 0 then Some (nopat / investedCapital) else None);
             currentRatio' =
               (if currentLiabilities balance > 0
                then currentAssets balance / currentLiabilities balance else 0);
             inventory' = (case inventory balance of None \<Rightarrow> 0 | Some v \<Rightarrow> or_default v 0);
             quickRatio' =
               (if currentLiabilities balance > 0
                then (currentAssets balance - inventory') / currentLiabilities balance else 0);
             debtToEquity' =
               (if totalEquity balance > 0 then totalDebt balance / totalEquity balance else 0);
             debtToAssets' =
               (if totalAssets balance > 0 then totalDebt balance / totalAssets balance else 0);
             interestCoverage' =
               (case interestExpense income of
                  None \<Rightarrow> None
                | Some ie \<Rightarrow>
                    if ie \<noteq> 0 \<and> ie > 0 then Some (operatingIncome income / ie) else None);
             netDebt = totalDebt balance - cash balance;
             netDebtToEbitda' = (if ebitda income > 0 then Some (netDebt / ebitda income) else None);
             fcfYield' =
               (case quoteMarketCap quote of
                  None \<Rightarrow> None
                | Some mc \<Rightarrow> if mc > 0 then Some (freeCashFlow cashFlow / mc) else None);
             cashConversion' =
               (if IncomeStatement.netIncome income > 0
                then Some (freeCashFlow cashFlow / IncomeStatement.netIncome income) else None);
             capexToDepreciation' =
               (if depreciation cashFlow > 0
                then Some (capitalExpenditure cashFlow / depreciation cashFlow) else None);
             years = min (int (length (incomeStatements financials)) - 1) 5;
             revenueGrowth5Y' =
               (if years > 0
                then calculateCAGR (field_or (incomeStatements financials) years revenue 0)
                       (revenue income) years
                else None);
             epsGrowth5Y' =
               (if years > 0
                then calculateCAGR (max (field_or (incomeStatements financials) years eps 0) 0.01)
                       (max (eps income) 0.01) years
                else None);
             fcfYears = min (int (length (cashFlowStatements financials)) - 1) 5;
             fcfGrowth5Y' =
               (if fcfYears > 0
                then calculateCAGR
                       (max (field_or (cashFlowStatements financials) fcfYears freeCashFlow 0) 1)
                       (max (freeCashFlow cashFlow) 1) fcfYears
                else None);
             pe' = (case quote of None \<Rightarrow> None | Some q \<Rightarrow> StockQuote.pe q);
             pb' = (case quote of None \<Rightarrow> None | Some q \<Rightarrow> StockQuote.pb q);
             ps' = (case quote of None \<Rightarrow> None | Some q \<Rightarrow> StockQuote.ps q);
             peg' =
               (case (pe', epsGrowth5Y') of
                  (Some p, Some g) \<Rightarrow>
                    if p \<noteq> 0 \<and> g \<noteq> 0 \<and> g > 0 then Some (p / (g * 100)) else None
                | _ \<Rightarrow> None);
             evToEbitda' =
               (case quoteMarketCap quote of
                  None \<Rightarrow> None
                | Some mc \<Rightarrow>
                    if ebitda income > 0 then Some ((mc + netDebt) / ebitda income) else None);
             priceToFcf' =
               (case quoteMarketCap quote of
                  None \<Rightarrow> None
                | Some mc \<Rightarrow>
                    if freeCashFlow cashFlow > 0 then Some (mc / freeCashFlow cashFlow) else None)
         in \<lparr> pe = pe', pb = pb', ps = ps', peg = peg', evToEbitda = evToEbitda',
              priceToFcf = priceToFcf',
              grossMargin = grossMargin', operatingMargin = operatingMargin',
              netMargin = netMargin', roe = roe', roa = roa', roic = roic',
              currentRatio = currentRatio', quickRatio = quickRatio',
              debtToEquity = debtToEquity', debtToAssets = debtToAssets',
              interestCoverage = interestCoverage', netDebtToEbitda = netDebtToEbitda',
              fcfYield = fcfYield', cashConversion = cashConversion',
              capexToDepreciation = capexToDepreciation',
              revenueGrowth5Y = revenueGrowth5Y', epsGrowth5Y = epsGrowth5Y',
              fcfGrowth5Y = fcfGrowth5Y', dividendGrowth5Y = None \<rparr>
     | _ \<Rightarrow> getDefaultRatios)"

section \<open>Discounted cash flow (analysis/dcf.ts)\<close>

text \<open>
  \<open>projectionYears\<close> counts the iterations of the projection loop; the configuration
  schema admits the integers from 5 to 20. It is a natural number here.
\<close>

record DCFParams =
  discountRate :: real
  terminalGrowthRate :: real
  projectionYears :: nat
  customGrowthRate :: "real option"

record DCFAssumptions =
  discountRate :: real
  terminalGrowthRate :: real
  projectionYears :: nat
  estimatedGrowthRate :: real
  startingFcf :: real

record DCFResult =
  intrinsicValue :: real
  projectedFcf :: "real list"
  terminalValue :: real
  pvOfFcf :: real
  pvOfTerminal :: real
  enterpriseValue :: real
  assumptions :: DCFAssumptions

definition createNegativeFcfResult :: "DCFParams \<Rightarrow> DCFResult" where
  "createNegativeFcfResult params =
    \<lparr> intrinsicValue = 0, projectedFcf = [], terminalValue = 0, pvOfFcf = 0,
      pvOfTerminal = 0, enterpriseValue = 0,
      assumptions =
        \<lparr> discountRate = DCFParams.discountRate params,
          terminalGrowthRate = DCFParams.terminalGrowthRate params,
          projectionYears = DCFParams.projectionYears params,
          estimatedGrowthRate = 0, startingFcf = 0 \<rparr> \<rparr>"

text \<open>
  One block of \<open>estimateGrowthRate\<close>: \<open>start && start > 0 && end && end > 0\<close> on the two
  reads \<open>xs[years]?.field\<close> and \<open>xs[0]?.field\<close>, then the push of a CAGR that is not null.
\<close>

definition growthCandidate :: "real option \<Rightarrow> real option \<Rightarrow> int \<Rightarrow> real list" where
  "growthCandidate start end years =
    (case (start, end) of
       (Some s, Some e) \<Rightarrow>
         if s \<noteq> 0 \<and> s > 0 \<and> e \<noteq> 0 \<and> e > 0
         then (case calculateCAGR s e years of None \<Rightarrow> [] | Some g \<Rightarrow> [g])
         else []
     | _ \<Rightarrow> [])"

definition growthCandidates :: "Financials \<Rightarrow> real list" where
  "growthCandidates financials =
    (let cfs = cashFlowStatements financials;
         incs = incomeStatements financials;
         fcfGrowth =
           (if length cfs \<ge> 3 then
              let years = min (int (length cfs) - 1) 5
              in growthCandidate (map_option freeCashFlow (js_index cfs years))
                   (map_option freeCashFlow (js_index cfs 0)) years
            else []);
         revenueGrowth =
           (if length incs \<ge> 3 then
              let years = min (int (length incs) - 1) 5
              in growthCandidate (map_option revenue (js_index incs years))
                   (map_option revenue (js_index incs 0)) years
            else []);
         epsGrowth =
           (if length incs \<ge> 3 then
              let years = min (int (length incs) - 1) 5
              in growthCandidate (map_option eps (js_index incs years))
                   (map_option eps (js_index incs 0)) years
            else [])
     in fcfGrowth @ revenueGrowth @ epsGrowth)"

definition estimateGrowthRate :: "Financials \<Rightarrow> real" where
  "estimateGrowthRate financials =
    (let growthRates = growthCandidates financials
     in if length growthRates = 0 then 0.05
        else let sorted' = sort growthRates;
                 median = sorted' ! (length sorted' div 2)
             in median * 0.8)"

text \<open>
  The projection loop \<open>for (year = 1; year <= projectionYears; year++)\<close>, run over the
  list of its years, with the running \<open>fcf\<close> as state; it returns the array it pushes to.
\<close>

fun projectFcf :: "real \<Rightarrow> real \<Rightarrow> nat \<Rightarrow> nat list \<Rightarrow> real \<Rightarrow> real list" where
  "projectFcf growthRate safeTerminalGrowth n [] fcf = []"
| "projectFcf growthRate safeTerminalGrowth n (year # years) fcf =
    (let yearGrowthRate =
           growthRate - (growthRate - safeTerminalGrowth) * (real year / real n);
         fcf' = fcf * (1 + yearGrowthRate)
     in fcf' # projectFcf growthRate safeTerminalGrowth n years fcf')"

text \<open>The discounting loop, with the running \<open>pvOfFcf\<close> as state.\<close>

definition presentValue :: "real \<Rightarrow> real list \<Rightarrow> nat \<Rightarrow> real" where
  "presentValue discountRate' projected n =
    fold (\<lambda>year pv. pv + projected ! (year - 1) / (1 + discountRate') ^ year) [1..<Suc n] 0"

text \<open>
  With \<open>projectionYears = 0\<close> the source reads \<open>projectedFcf[-1]\<close>, which is undefined, and
  the terminal value, the enterprise value and the intrinsic value it returns are NaN; with
  \<open>discountRate = -1\<close> it divides by zero. The model says nothing definite there (the read
  \<open>projected ! (n - 1)\<close> falls outside the list), and the theorems on the computing branch
  assume at least one projection year and a discount rate other than -1.
\<close>

definition calculateDCF :: "Financials \<Rightarrow> StockQuote \<Rightarrow> DCFParams \<Rightarrow> DCFResult" where
  "calculateDCF financials quote params =
    (let discountRate' = DCFParams.discountRate params;
         terminalGrowthRate' = DCFParams.terminalGrowthRate params;
         projectionYears' = DCFParams.projectionYears params;
         currentFcf = field_or (cashFlowStatements financials) 0 freeCashFlow 0
     in if currentFcf \<le> 0 then createNegativeFcfResult params
        else
          let growthRate0 =
                (case customGrowthRate params of
                   None \<Rightarrow> estimateGrowthRate financials
                 | Some g \<Rightarrow> g);
              growthRate = max (- 0.10) (min growthRate0 0.25);
              safeTerminalGrowth = min terminalGrowthRate' (discountRate' - 0.01);
              projected =
                projectFcf growthRate safeTerminalGrowth projectionYears'
                  [1..<Suc projectionYears'] currentFcf;
              pvOfFcf' = presentValue discountRate' projected projectionYears';
              terminalFcf = projected ! (projectionYears' - 1) * (1 + safeTerminalGrowth);
              terminalValue' = terminalFcf / (discountRate' - safeTerminalGrowth);
              pvOfTerminal' = terminalValue' / (1 + discountRate') ^ projectionYears';
              enterpriseValue' = pvOfFcf' + pvOfTerminal';
              sharesOutstanding' = field_or (incomeStatements financials) 0 sharesOutstanding 1;
              netDebt = field_or (balanceSheets financials) 0 totalDebt 0
                        - field_or (balanceSheets financials) 0 cash 0;
              equityValue = enterpriseValue' - netDebt;
              intrinsicValue' = max 0 (equityValue / sharesOutstanding')
          in \<lparr> intrinsicValue = intrinsicValue', projectedFcf = projected,
               terminalValue = terminalValue', pvOfFcf = pvOfFcf',
               pvOfTerminal = pvOfTerminal', enterpriseValue = enterpriseValue',
               assumptions =
                 \<lparr> discountRate = discountRate', terminalGrowthRate = safeTerminalGrowth,
                   projectionYears = projectionYears', estimatedGrowthRate = growthRate,
                   startingFcf = currentFcf \<rparr> \<rparr>)"

section \<open>Moat scorer (analysis/moat-scorer.ts)\<close>

text \<open>
  An evidence line is either a fixed text or a template literal around one number printed
  with \<open>toFixed(digits)\<close>: prefix, number, digits, suffix. The number is kept, not rendered.
\<close>

datatype Evidence = Text string | Formatted string real nat string

datatype MoatRating = MoatNone | Narrow | Wide

datatype DurabilityAssessment = Weak | Moderate | Strong

record 'm MoatDimension =
  score :: real
  evidence :: "Evidence list"
  metrics :: 'm

record BrandPowerMetrics =
  grossMargin :: real
  grossMarginStability :: real

record CostAdvantageMetrics =
  operatingMargin :: real
  operatingMarginVsIndustry :: "real option"

record NetworkEffectMetrics =
  revenueGrowth :: real
  userGrowth :: "real option"

record SwitchingCostsMetrics =
  revenueStability :: real
  customerRetention :: "real option"

record ScaleEconomiesMetrics =
  marketCap :: real
  revenuePerEmployee :: "real option"

record MoatDimensions =
  brandPower :: "BrandPowerMetrics MoatDimension"
  costAdvantage :: "CostAdvantageMetrics MoatDimension"
  networkEffect :: "NetworkEffectMetrics MoatDimension"
  switchingCosts :: "SwitchingCostsMetrics MoatDimension"
  scaleEconomies :: "ScaleEconomiesMetrics MoatDimension"

record Durability =
  score :: real
  assessment :: DurabilityAssessment
  factors :: "Evidence list"

record MoatAnalysis =
  ticker :: string
  companyName :: string
  overallScore :: real
  moatRating :: MoatRating
  dimensions :: MoatDimensions
  durability :: Durability
  analyzedAt :: Date

text \<open>\<open>values.reduce((a, b) => a + b, 0)\<close>.\<close>

definition reduceSum :: "real list \<Rightarrow> real" where
  "reduceSum values = fold (\<lambda>b a. a + b) values 0"

definition calculateStability :: "real list \<Rightarrow> real" where
  "calculateStability values =
    (if length values < 2 then 1
     else
       let mean = reduceSum values / real (length values)
       in if mean = 0 then 0
          else
            let variance =
                  fold (\<lambda>val sum. sum + (val - mean) ^ 2) values 0 / real (length values);
                stdDev = sqrt variance;
                cv = stdDev / \<bar>mean\<bar>
            in max 0 (min 1 (1 - cv)))"

definition analyzeBrandPower ::
  "Financials \<Rightarrow> FinancialRatios \<Rightarrow> BrandPowerMetrics MoatDimension" where
  "analyzeBrandPower financials ratios =
    (let grossMargin' = FinancialRatios.grossMargin ratios;
         (score1, evidence1) =
           (if grossMargin' \<ge> 0.60 then
              (1 + 2, [Formatted ''Exceptional gross margin ('' (grossMargin' * 100) 1
                         ''%) indicates strong pricing power''])
            else if grossMargin' \<ge> 0.40 then
              (1 + 1.5, [Formatted ''Strong gross margin ('' (grossMargin' * 100) 1
                           ''%) suggests brand value''])
            else if grossMargin' \<ge> 0.25 then
              (1 + 0.5, [Formatted ''Moderate gross margin ('' (grossMargin' * 100) 1 ''%)''])
            else
              (1, [Formatted ''Low gross margin ('' (grossMargin' * 100) 1
                     ''%) suggests commodity-like products'']));
         grossMargins =
           map (\<lambda>stmt. if revenue stmt > 0 then grossProfit stmt / revenue stmt else 0)
             (incomeStatements financials);
         marginStability = calculateStability grossMargins;
         (score2, evidence2) =
           (if marginStability \<ge> 0.9 then
              (score1 + 1, evidence1 @ [Text ''Very stable gross margins over time''])
            else if marginStability \<ge> 0.7 then
              (score1 + 0.5, evidence1 @ [Text ''Reasonably stable gross margins''])
            else
              (score1, evidence1 @ [Text ''Volatile gross margins suggest weak pricing power'']))
     in \<lparr> MoatDimension.score = min 5 score2, evidence = evidence2,
          metrics = \<lparr> grossMargin = grossMargin', grossMarginStability = marginStability \<rparr> \<rparr>)"

definition analyzeCostAdvantage ::
  "Financials \<Rightarrow> FinancialRatios \<Rightarrow> CostAdvantageMetrics MoatDimension" where
  "analyzeCostAdvantage financials ratios =
    (let opMargin = FinancialRatios.operatingMargin ratios;
         (score1, evidence1) =
           (if opMargin \<ge> 0.30 then
              (1 + 2, [Formatted ''Exceptional operating margin ('' (opMargin * 100) 1 ''%)''])
            else if opMargin \<ge> 0.20 then
              (1 + 1.5, [Formatted ''Strong operating margin ('' (opMargin * 100) 1 ''%)''])
            else if opMargin \<ge> 0.10 then
              (1 + 0.5, [Formatted ''Adequate operating margin ('' (opMargin * 100) 1 ''%)''])
            else
              (1, [Formatted ''Low operating margin ('' (opMargin * 100) 1
                     ''%) indicates no cost advantage'']));
         opMargins =
           map (\<lambda>stmt. if revenue stmt > 0 then operatingIncome stmt / revenue stmt else 0)
             (incomeStatements financials);
         (score2, evidence2) =
           (if length opMargins \<ge> 3 then
              let lastMargin = opMargins ! (length opMargins - 1);
                  trend = (opMargins ! 0 - lastMargin) / \<bar>or_default lastMargin 1\<bar>
              in if trend > 0.1 then
                   (score1 + 1, evidence1 @ [Text ''Operating margins improving over time''])
                 else if trend > 0 then
                   (score1 + 0.5,
                    evidence1 @ [Text ''Operating margins stable to slightly improving''])
                 else if trend < - 0.1 then
                   (score1 - 0.5,
                    evidence1 @
                    [Text ''Operating margins declining - cost advantage may be eroding''])
                 else (score1, evidence1)
            else (score1, evidence1))
     in \<lparr> MoatDimension.score = min 5 (max 1 score2), evidence = evidence2,
          metrics = \<lparr> operatingMargin = opMargin, operatingMarginVsIndustry = None \<rparr> \<rparr>)"

definition analyzeNetworkEffect ::
  "Financials \<Rightarrow> FinancialRatios \<Rightarrow> NetworkEffectMetrics MoatDimension" where
  "analyzeNetworkEffect financials ratios =
    (let revenueGrowth' = revenueGrowth5Y ratios;
         (score1, evidence1) =
           (case revenueGrowth' of
              None \<Rightarrow> (1, [])
            | Some g \<Rightarrow>
                if g \<ge> 0.20 then
                  (1 + 2, [Formatted ''Strong revenue growth ('' (g * 100) 1
                             ''% CAGR) may indicate network effects''])
                else if g \<ge> 0.10 then
                  (1 + 1, [Formatted ''Good revenue growth ('' (g * 100) 1 ''% CAGR)''])
                else if g \<ge> 0.05 then
                  (1 + 0.5, [Formatted ''Moderate revenue growth ('' (g * 100) 1 ''% CAGR)''])
                else
                  (1, [Formatted ''Slow revenue growth ('' (g * 100) 1
                         ''% CAGR) - limited network effects'']));
         revenues = map revenue (incomeStatements financials);
         netMargins =
           map (\<lambda>stmt. if revenue stmt > 0
                        then IncomeStatement.netIncome stmt / revenue stmt else 0)
             (incomeStatements financials);
         (score2, evidence2) =
           (if length revenues \<ge> 3 then
              let revenueGrew = revenues ! 0 > revenues ! (length revenues - 1);
                  marginsImproved = netMargins ! 0 > netMargins ! (length netMargins - 1)
              in if revenueGrew \<and> marginsImproved then
                   (score1 + 1,
                    evidence1 @ [Text ''Margins improving with scale - possible network effect''])
                 else (score1, evidence1)
            else (score1, evidence1))
     in \<lparr> MoatDimension.score = min 5 score2, evidence = evidence2,
          metrics =
            \<lparr> revenueGrowth = (case revenueGrowth' of None \<Rightarrow> 0 | Some g \<Rightarrow> or_default g 0),
              userGrowth = None \<rparr> \<rparr>)"

definition analyzeSwitchingCosts ::
  "Financials \<Rightarrow> FinancialRatios \<Rightarrow> SwitchingCostsMetrics MoatDimension" where
  "analyzeSwitchingCosts financials ratios =
    (let revenues = map revenue (incomeStatements financials);
         revenueStability' = calculateStability revenues;
         (score1, evidence1) =
           (if revenueStability' \<ge> 0.95 then
              (1 + 2, [Text ''Very stable revenue base suggests high customer retention''])
            else if revenueStability' \<ge> 0.85 then
              (1 + 1, [Text ''Stable revenue indicates moderate switching costs''])
            else if revenueStability' \<ge> 0.70 then
              (1 + 0.5, [Text ''Moderately stable revenue''])
            else
              (1, [Text ''Volatile revenue suggests low switching costs'']));
         allPositiveGrowth =
           list_all (\<lambda>(rev, i). rev \<ge> revenues ! (i + 1))
             (zip (butlast revenues) [0..<length revenues - 1]);
         (score2, evidence2) =
           (if allPositiveGrowth \<and> length revenues \<ge> 3 then
              (score1 + 1,
               evidence1 @ [Text ''Consistent revenue growth indicates customer stickiness''])
            else (score1, evidence1));
         (score3, evidence3) =
           (if FinancialRatios.grossMargin ratios \<ge> 0.50 then
              (score2 + 0.5, evidence2 @ [Text ''High margins may indicate customer lock-in''])
            else (score2, evidence2))
     in \<lparr> MoatDimension.score = min 5 score3, evidence = evidence3,
          metrics = \<lparr> revenueStability = revenueStability', customerRetention = None \<rparr> \<rparr>)"

definition analyzeScaleEconomies ::
  "Financials \<Rightarrow> StockQuote \<Rightarrow> CompanyProfile \<Rightarrow> FinancialRatios
     \<Rightarrow> ScaleEconomiesMetrics MoatDimension" where
  "analyzeScaleEconomies financials quote profile ratios =
    (let marketCap' = StockQuote.marketCap quote;
         (score1, evidence1) =
           (if marketCap' \<ge> 200000000000 then
              (1 + 2, [Text ''Mega-cap company with significant scale advantages''])
            else if marketCap' \<ge> 50000000000 then
              (1 + 1.5, [Text ''Large-cap company with scale benefits''])
            else if marketCap' \<ge> 10000000000 then
              (1 + 0.5, [Text ''Mid-cap company with some scale advantages''])
            else
              (1, [Text ''Smaller company - limited scale advantages'']));
         latestRevenue = field_or (incomeStatements financials) 0 revenue 0;
         (score2, evidence2, revenuePerEmployee') =
           (case employees profile of
              None \<Rightarrow> (score1, evidence1, None)
            | Some e \<Rightarrow>
                if e \<noteq> 0 \<and> e > 0 then
                  let rpe = latestRevenue / e
                  in if rpe \<ge> 1000000 then
                       (score1 + 1.5,
                        evidence1 @ [Formatted ''High revenue per employee ($'' (rpe / 1000) 0
                                       ''K) indicates efficiency''],
                        Some rpe)
                     else if rpe \<ge> 500000 then
                       (score1 + 0.5,
                        evidence1 @ [Formatted ''Good revenue per employee ($'' (rpe / 1000) 0
                                       ''K)''],
                        Some rpe)
                     else
                       (score1,
                        evidence1 @ [Formatted ''Lower revenue per employee ($'' (rpe / 1000) 0
                                       ''K)''],
                        Some rpe)
                else (score1, evidence1, None))
     in \<lparr> MoatDimension.score = min 5 score2, evidence = evidence2,
          metrics = \<lparr> marketCap = marketCap', revenuePerEmployee = revenuePerEmployee' \<rparr> \<rparr>)"

text \<open>
  In \<open>analyzeDurability\<close> the average ROE of an empty history is \<open>0 / 0\<close>, NaN, which
  fails every comparison: it is \<open>None\<close> here.
\<close>

definition analyzeDurability :: "Financials \<Rightarrow> FinancialRatios \<Rightarrow> real \<Rightarrow> Durability" where
  "analyzeDurability financials ratios overallScore' =
    (let incs = incomeStatements financials;
         bals = balanceSheets financials;
         roeValues =
           map (\<lambda>i. field_or incs (int i) IncomeStatement.netIncome 0
                     / field_or bals (int i) totalEquity 1)
             [0..<min (length incs) (length bals)];
         roeStability = calculateStability roeValues;
         avgRoe = (if roeValues = [] then None
                   else Some (reduceSum roeValues / real (length roeValues)));
         (score1, factors1) =
           (if (case avgRoe of None \<Rightarrow> False | Some a \<Rightarrow> a \<ge> 0.15) \<and> roeStability \<ge> 0.8 then
              (overallScore' + 1, [Text ''Consistently high ROE indicates durable advantage''])
            else if (case avgRoe of None \<Rightarrow> False | Some a \<Rightarrow> a \<ge> 0.10) \<and> roeStability \<ge> 0.6
            then (overallScore', [Text ''Moderately consistent ROE''])
            else (overallScore' - 0.5, [Text ''Inconsistent ROE raises durability concerns'']));
         fcfValues = map freeCashFlow (cashFlowStatements financials);
         positiveFcfYears = length (filter (\<lambda>fcf. fcf > 0) fcfValues);
         (score2, factors2) =
           (if positiveFcfYears = length fcfValues \<and> length fcfValues \<ge> 3 then
              (score1 + 0.5, factors1 @ [Text ''Consistently positive free cash flow''])
            else if real positiveFcfYears \<ge> real (length fcfValues) * 0.8 then
              (score1, factors1 @ [Text ''Generally positive free cash flow''])
            else
              (score1 - 0.5, factors1 @ [Text ''Inconsistent free cash flow'']));
         (assessment', factors3) =
           (if score2 \<ge> 4 then
              (Strong, factors2 @ [Text ''Moat appears sustainable long-term''])
            else if score2 \<ge> 2.5 then
              (Moderate, factors2 @ [Text ''Moat durability is uncertain''])
            else
              (Weak, factors2 @ [Text ''Competitive advantages may be temporary'']))
     in \<lparr> score = max 1 (min 5 score2), assessment = assessment', factors = factors3 \<rparr>)"

text \<open>\<open>Math.max(x, ...xs)\<close> on at least one number.\<close>

definition Math_max :: "real \<Rightarrow> real list \<Rightarrow> real" where
  "Math_max x xs = fold max xs x"

text \<open>
  \<open>analyzeMoat\<close> stamps its result with \<open>new Date()\<close>. The clock is not an argument of
  the source function; the model takes the instant it reads as its first argument.
\<close>

definition analyzeMoat :: "Date \<Rightarrow> Financials \<Rightarrow> StockQuote \<Rightarrow> CompanyProfile \<Rightarrow> MoatAnalysis" where
  "analyzeMoat now financials quote profile =
    (let ratios = calculateFinancialRatios financials (Some quote);
         brandPower' = analyzeBrandPower financials ratios;
         costAdvantage' = analyzeCostAdvantage financials ratios;
         networkEffect' = analyzeNetworkEffect financials ratios;
         switchingCosts' = analyzeSwitchingCosts financials ratios;
         scaleEconomies' = analyzeScaleEconomies financials quote profile ratios;
         overallScore' =
           Math_max (MoatDimension.score brandPower')
             [MoatDimension.score costAdvantage', MoatDimension.score networkEffect',
              MoatDimension.score switchingCosts', MoatDimension.score scaleEconomies'];
         moatRating' =
           (if overallScore' \<ge> 4 then Wide
            else if overallScore' \<ge> 2.5 then Narrow
            else MoatNone);
         durability' = analyzeDurability financials ratios overallScore'
     in \<lparr> ticker = StockQuote.ticker quote, companyName = StockQuote.name quote,
          overallScore = overallScore', moatRating = moatRating',
          dimensions =
            \<lparr> brandPower = brandPower', costAdvantage = costAdvantage',
              networkEffect = networkEffect', switchingCosts = switchingCosts',
              scaleEconomies = scaleEconomies' \<rparr>,
          durability = durability', analyzedAt = now \<rparr>)"

section \<open>The stability metric in the words of the specification\<close>

text \<open>
  The specification describes the stability metric as one minus the coefficient of
  variation: the population standard deviation over the absolute value of the mean.
\<close>

definition spec_mean :: "real list \<Rightarrow> real" where
  "spec_mean xs = sum_list xs / real (length xs)"

definition spec_coefficientOfVariation :: "real list \<Rightarrow> real" where
  "spec_coefficientOfVariation xs =
     sqrt (sum_list (map (\<lambda>x. (x - spec_mean xs) ^ 2) xs) / real (length xs))
       / \<bar>spec_mean xs\<bar>"

section \<open>Sample data\<close>

text \<open>
  Statements in the shape of the mock data of tests/analysis/dcf.test.ts, with the
  figures that matter left open.
\<close>

definition sampleIncome :: "string \<Rightarrow> real \<Rightarrow> real \<Rightarrow> real \<Rightarrow> IncomeStatement" where
  "sampleIncome year revenue' eps' shares =
    \<lparr> IncomeStatement.fiscalYear = year, IncomeStatement.fiscalQuarter = None, revenue = revenue',
      costOfRevenue = 0.4 * revenue', grossProfit = 0.6 * revenue',
      researchAndDevelopment = Some 5000000, sellingGeneralAdmin = Some 10000000,
      operatingIncome = 0.45 * revenue', interestExpense = Some 1000000,
      IncomeStatement.netIncome = 0.35 * revenue', eps = eps', epsDiluted = eps', ebitda = 0.5 * revenue',
      sharesOutstanding = shares, IncomeStatement.reportDate = year @ ''-12-31'' \<rparr>"

definition sampleBalance :: "string \<Rightarrow> real \<Rightarrow> real \<Rightarrow> BalanceSheet" where
  "sampleBalance year debt cash' =
    \<lparr> BalanceSheet.fiscalYear = year, BalanceSheet.fiscalQuarter = None, totalAssets = 200000000,
      currentAssets = 80000000, cash = cash', shortTermInvestments = Some 10000000,
      accountsReceivable = Some 20000000, inventory = Some 15000000,
      totalLiabilities = 80000000, currentLiabilities = 30000000, longTermDebt = 40000000,
      totalDebt = debt, totalEquity = 120000000, retainedEarnings = Some 80000000,
      bookValuePerShare = 12, BalanceSheet.reportDate = year @ ''-12-31'' \<rparr>"

definition sampleCashFlow :: "string \<Rightarrow> real \<Rightarrow> CashFlowStatement" where
  "sampleCashFlow year fcf =
    \<lparr> CashFlowStatement.fiscalYear = year, fiscalQuarter = None, netIncome = 35000000,
      depreciation = 5000000, operatingCashFlow = fcf + 7000000,
      capitalExpenditure = 7000000, investingCashFlow = - 10000000,
      financingCashFlow = - 20000000, freeCashFlow = fcf, dividendsPaid = Some 10000000,
      stockRepurchases = Some 5000000, reportDate = year @ ''-12-31'' \<rparr>"

definition sampleFinancials ::
  "IncomeStatement list \<Rightarrow> BalanceSheet list \<Rightarrow> CashFlowStatement list \<Rightarrow> Financials" where
  "sampleFinancials incs bals cfs =
    \<lparr> Financials.ticker = ''TEST'', incomeStatements = incs, balanceSheets = bals,
      cashFlowStatements = cfs, Financials.currency = ''USD'', lastUpdated = 0 \<rparr>"

definition sampleQuote :: StockQuote where
  "sampleQuote =
    \<lparr> StockQuote.ticker = ''TEST'', StockQuote.name = ''Test Company'', price = 50, open = 49.5, high = 51,
      low = 49, previousClose = 49, change = 1, changePercent = 2.04, volume = 1000000,
      StockQuote.marketCap = 500000000, pe = Some 14.29, pb = Some 4.17, ps = Some 5,
      dividendYield = Some 0.02, week52High = 60, week52Low = 40, timestamp = 0,
      StockQuote.currency = ''USD'', exchange = ''NASDAQ'' \<rparr>"

definition sampleProfile :: CompanyProfile where
  "sampleProfile =
    \<lparr> CompanyProfile.ticker = ''TEST'', CompanyProfile.name = ''Test Company'', description = ''A test company'',
      sector = ''Technology'', industry = ''Software'', employees = None,
      website = ''https://example.com'', country = ''US'', ceo = None, foundedYear = None,
      ipoDate = None \<rparr>"

definition sampleParams :: "real \<Rightarrow> real option \<Rightarrow> DCFParams" where
  "sampleParams rate growth =
    \<lparr> DCFParams.discountRate = rate, DCFParams.terminalGrowthRate = 0.03, DCFParams.projectionYears = 10,
      customGrowthRate = growth \<rparr>"

text \<open>Three years whose free cash flow grew from 100 to 121 on flat revenue, with no EPS.\<close>

definition twoCandidateFinancials :: Financials where
  "twoCandidateFinancials =
    sampleFinancials
      [sampleIncome ''2023'' 100 0 10, sampleIncome ''2022'' 100 1 10,
       sampleIncome ''2021'' 100 1 10]
      [sampleBalance ''2023'' 50 30]
      [sampleCashFlow ''2023'' 121, sampleCashFlow ''2022'' 110, sampleCashFlow ''2021'' 100]"

text \<open>Two years, the earlier one with a loss per share.\<close>

definition lossYearFinancials :: Financials where
  "lossYearFinancials =
    sampleFinancials
      [sampleIncome ''2023'' 100 2 10, sampleIncome ''2022'' 100 (- 1) 10]
      [sampleBalance ''2023'' 50 30]
      [sampleCashFlow ''2023'' 10, sampleCashFlow ''2022'' (- 5)]"

section \<open>Auxiliary functions for the analysis of the DCF value\<close>

text \<open>
  These functions are not part of the program. They express the enterprise value in closed
  form: with \<open>r\<^sub>y\<close> the factor by which year \<open>y\<close> grows the cash flow and discounts it, the
  enterprise value is the starting cash flow times
  \<open>r\<^sub>1 * (1 + r\<^sub>2 * (1 + ... r\<^sub>n * (1 + K)))\<close>, where \<open>K\<close> is the terminal multiple.
\<close>

text \<open>The discounted sum of a list of cash flows, the first one \<open>k + 1\<close> years away.\<close>

fun discSum :: "real \<Rightarrow> nat \<Rightarrow> real list \<Rightarrow> real" where
  "discSum c k [] = 0"
| "discSum c k (v # rest) = v / c ^ Suc k + discSum c (Suc k) rest"

text \<open>The nested sum \<open>r\<^sub>1 * (1 + r\<^sub>2 * (1 + ... (1 + k)))\<close> of a list of factors.\<close>

fun horner :: "real list \<Rightarrow> real \<Rightarrow> real" where
  "horner [] k = k"
| "horner (r # rs) k = r * (1 + horner rs k)"

text \<open>
  The factor of the year that lies the fraction \<open>b\<close> into the projection, for growth rate
  \<open>g\<close>, terminal growth rate \<open>s\<close> and discount rate \<open>d\<close>; and the factors of a list of years.
\<close>

definition yearRatio :: "real \<Rightarrow> real \<Rightarrow> real \<Rightarrow> real \<Rightarrow> real" where
  "yearRatio g s d b = (1 + (g - (g - s) * b)) / (1 + d)"

definition dcfRatios :: "real \<Rightarrow> real \<Rightarrow> real \<Rightarrow> nat \<Rightarrow> nat list \<Rightarrow> real list" where
  "dcfRatios g s d n years = map (\<lambda>y. yearRatio g s d (real y / real n)) years"

text \<open>
  When the terminal growth rate is the clamp \<open>d - 0.01\<close>, the year factor is
  \<open>b + slack g b / (1 + d)\<close>.
\<close>

definition slack :: "real \<Rightarrow> real \<Rightarrow> real" where
  "slack g b = (1 + g) * (1 - b) - (1/100) * b"

text \<open>The enterprise value per unit of starting cash flow.\<close>

definition evFactor :: "real \<Rightarrow> real \<Rightarrow> real \<Rightarrow> nat \<Rightarrow> real" where
  "evFactor g t d n =
     horner (dcfRatios g (min t (d - 1/100)) d n [1..<Suc n])
       ((1 + min t (d - 1/100)) / (d - min t (d - 1/100)))"

section \<open>Helper facts\<close>

lemma or_default_zero [simp]: "or_default x 0 = x"
  by (simp add: or_default_def)

lemma js_index_Nil [simp]: "js_index [] i = None"
  by (simp add: js_index_def)

lemma js_index_Cons_0 [simp]: "js_index (x # xs) 0 = Some x"
  by (simp add: js_index_def)

lemma js_index_nat: "n < length xs \<Longrightarrow> js_index xs (int n) = Some (xs ! n)"
  by (simp add: js_index_def)

lemma field_or_Nil [simp]: "field_or [] i f d = d"
  by (simp add: field_or_def)

lemma field_or_Cons_0 [simp]: "field_or (x # xs) 0 f d = or_default (f x) d"
  by (simp add: field_or_def)

lemma field_or_nat: "n < length xs \<Longrightarrow> field_or xs (int n) f d = or_default (f (xs ! n)) d"
  by (simp add: field_or_def js_index_nat)

lemma length_projectFcf [simp]: "length (projectFcf g s n years fcf) = length years"
  by (induction years arbitrary: fcf) (simp_all add: Let_def)

lemma calculateDCF_refuses:
  assumes "field_or (cashFlowStatements f) 0 freeCashFlow 0 \<le> 0"
  shows "calculateDCF f q p = createNegativeFcfResult p"
  using assms by (simp add: calculateDCF_def Let_def)

lemma calculateDCF_growth:
  assumes "0 < field_or (cashFlowStatements f) 0 freeCashFlow 0"
  shows "estimatedGrowthRate (assumptions (calculateDCF f q p)) =
           max (- 0.10)
             (min (case customGrowthRate p of None \<Rightarrow> estimateGrowthRate f | Some g \<Rightarrow> g) 0.25)"
  using assms by (simp add: calculateDCF_def Let_def)

section \<open>Margin of safety: properties\<close>

lemma fold_min_Min: "fold min vs (v::real) = Min (set (v # vs))"
proof (induction vs arbitrary: v)
  case Nil
  show ?case by simp
next
  case (Cons a vs)
  have "fold min (a # vs) v = Min (set (min a v # vs))"
    using Cons.IH [of "min a v"] by simp
  also have "\<dots> = Min (insert a (insert v (set vs)))"
    by (cases "vs = []") (simp_all add: min.assoc min.commute min.left_commute)
  finally show ?case by (simp add: insert_commute)
qed

lemma fold_plus_sum: "fold (\<lambda>b a. a + b) xs (s::real) = s + sum_list xs"
  by (induction xs arbitrary: s) simp_all

lemma collectStep_snd:
  "snd (collectStep p (m, x) (ind, valid)) =
     valid @ (case x of Some v \<Rightarrow> if 0 < v then [v] else [] | None \<Rightarrow> [])"
  by (simp add: collectStep_def split: option.split)

lemma collect_fold_valid:
  "snd (fold (collectStep p) vals (ind, valid)) =
     valid @ filter (\<lambda>v. 0 < v) (List.map_filter snd vals)"
proof (induction vals arbitrary: ind valid)
  case Nil
  show ?case by simp
next
  case (Cons e vals)
  obtain m x where e: "e = (m, x)" by (cases e)
  obtain ind' valid' where st: "collectStep p (m, x) (ind, valid) = (ind', valid')"
    by (cases "collectStep p (m, x) (ind, valid)")
  have v': "valid' = valid @ (case x of Some v \<Rightarrow> if 0 < v then [v] else [] | None \<Rightarrow> [])"
    using collectStep_snd [of p m x ind valid] by (simp add: st)
  have "snd (fold (collectStep p) (e # vals) (ind, valid)) =
          valid' @ filter (\<lambda>v. 0 < v) (List.map_filter snd vals)"
    by (simp add: e st Cons.IH)
  then show ?case
    by (cases x) (simp_all add: e v')
qed

lemma collectValuations_valid:
  "snd (collectValuations p vals) = filter (\<lambda>v. 0 < v) (List.map_filter snd vals)"
  by (simp add: collectValuations_def collect_fold_valid)

text \<open>
  C6 (as the code has it). A price of 70 against an intrinsic value of 100 gives a margin
  of 0.30, status undervalued and risk level medium (the 25 to 35 percent band); a price
  of 130 gives a margin of -0.30 and status overvalued.
\<close>

theorem C6_margin_examples:
  "MarginOfSafetyResult.marginOfSafety (calculateMarginOfSafety 70 100) = 0.30 \<and>
   MarginOfSafetyResult.status (calculateMarginOfSafety 70 100) = Undervalued \<and>
   riskLevel (calculateMarginOfSafety 70 100) = Medium \<and>
   MarginOfSafetyResult.marginOfSafety (calculateMarginOfSafety 130 100) = - 0.30 \<and>
   MarginOfSafetyResult.status (calculateMarginOfSafety 130 100) = Overvalued"
  by (simp add: calculateMarginOfSafety_def marginOfSafetyThresholds_def)

text \<open>
  C6 as claimed fails: the risk level returned for price 70 and intrinsic value 100 is
  not low.
\<close>

theorem C6_risk_not_low:
  "\<not> (MarginOfSafetyResult.marginOfSafety (calculateMarginOfSafety 70 100) = 0.30 \<and>
      MarginOfSafetyResult.status (calculateMarginOfSafety 70 100) = Undervalued \<and>
      riskLevel (calculateMarginOfSafety 70 100) = Low)"
  by (simp add: calculateMarginOfSafety_def marginOfSafetyThresholds_def)

text \<open>
  C4. The values that survive are the entries that are present and strictly positive.
  With none, the combined margin is -1 and the status overvalued. Otherwise the effective
  intrinsic value is the lesser of their minimum and their arithmetic mean, and so never
  exceeds the minimum of the valid values.
\<close>

theorem C4_combined_effective_value:
  fixes currentPrice' :: real and valuations :: "(string \<times> real option) list"
  assumes "0 < currentPrice'"
  shows "let r = calculateCombinedMarginOfSafety currentPrice' valuations;
             valid = filter (\<lambda>v. 0 < v) (List.map_filter snd valuations)
         in snd (collectValuations currentPrice' valuations) = valid \<and>
            (valid = [] \<longrightarrow>
               combinedMarginOfSafety r = - 1 \<and> CombinedMarginOfSafety.status r = Overvalued) \<and>
            (valid \<noteq> [] \<longrightarrow>
               averageIntrinsicValue r =
                 min (Min (set valid)) (sum_list valid / real (length valid)) \<and>
               averageIntrinsicValue r \<le> Min (set valid))"
proof -
  define r where "r = calculateCombinedMarginOfSafety currentPrice' valuations"
  define valid where "valid = filter (\<lambda>v. 0 < v) (List.map_filter snd valuations)"
  have v: "snd (collectValuations currentPrice' valuations) = valid"
    by (simp add: valid_def collectValuations_valid)
  obtain ind where c: "collectValuations currentPrice' valuations = (ind, valid)"
    using v by (cases "collectValuations currentPrice' valuations") simp
  have e: "combinedMarginOfSafety r = - 1 \<and> CombinedMarginOfSafety.status r = Overvalued"
    if "valid = []"
    using that by (simp add: r_def calculateCombinedMarginOfSafety_def c)
  have n: "averageIntrinsicValue r =
          min (Min (set valid)) (sum_list valid / real (length valid)) \<and>
        averageIntrinsicValue r \<le> Min (set valid)"
    if ne: "valid \<noteq> []"
  proof -
    obtain x xs where xs: "valid = x # xs" using ne by (cases valid) auto
    have "averageIntrinsicValue r =
            min (fold min xs x) (fold (\<lambda>b a. a + b) valid 0 / real (length valid))"
      by (simp add: r_def calculateCombinedMarginOfSafety_def c xs Let_def)
    then have eq: "averageIntrinsicValue r =
            min (Min (set valid)) (sum_list valid / real (length valid))"
      by (simp add: fold_min_Min fold_plus_sum xs)
    then show ?thesis by simp
  qed
  from v e n show ?thesis
    unfolding Let_def r_def [symmetric] valid_def [symmetric] by blast
qed

theorem C4_combined_witness:
  "(0::real) < 60 \<and>
   averageIntrinsicValue (calculateCombinedMarginOfSafety 60
     [(''dcf'', Some 80), (''grahamNumber'', Some 120), (''grahamGrowth'', None)]) = 80 \<and>
   combinedMarginOfSafety (calculateCombinedMarginOfSafety 60
     [(''dcf'', Some 0), (''grahamNumber'', Some (- 3)), (''grahamGrowth'', None)]) = - 1"
  using C4_combined_effective_value [of 60
      "[(''dcf'', Some 80), (''grahamNumber'', Some 120), (''grahamGrowth'', None)]"]
    C4_combined_effective_value [of 60
      "[(''dcf'', Some 0), (''grahamNumber'', Some (- 3)), (''grahamGrowth'', None)]"]
  by (simp add: Let_def)

section \<open>Discounted cash flow: properties\<close>

text \<open>
  C1. When the most recent cash-flow record is absent, or its free cash flow is zero or
  negative, \<open>calculateDCF\<close> returns the refusal result: intrinsic value 0, no projected
  cash flows, and terminal value, both present values and the enterprise value all 0.
\<close>

theorem C1_refuses_nonpositive_fcf:
  assumes "cashFlowStatements f = [] \<or> freeCashFlow (hd (cashFlowStatements f)) \<le> 0"
  shows "DCFResult.intrinsicValue (calculateDCF f q p) = 0 \<and>
         projectedFcf (calculateDCF f q p) = [] \<and>
         terminalValue (calculateDCF f q p) = 0 \<and>
         pvOfFcf (calculateDCF f q p) = 0 \<and>
         pvOfTerminal (calculateDCF f q p) = 0 \<and>
         enterpriseValue (calculateDCF f q p) = 0"
proof -
  have "field_or (cashFlowStatements f) 0 freeCashFlow 0 \<le> 0"
  proof (cases "cashFlowStatements f")
    case Nil
    then show ?thesis by simp
  next
    case (Cons cf cfs)
    with assms show ?thesis by simp
  qed
  then have "calculateDCF f q p = createNegativeFcfResult p"
    by (rule calculateDCF_refuses)
  then show ?thesis by (simp add: createNegativeFcfResult_def)
qed

theorem C1_refuses_witness:
  "DCFResult.intrinsicValue
     (calculateDCF
        (sampleFinancials [sampleIncome ''2023'' 100000000 3.5 10000000]
           [sampleBalance ''2023'' 50000000 30000000] [sampleCashFlow ''2023'' (- 5000000)])
        sampleQuote (sampleParams 0.10 None)) = 0 \<and>
   projectedFcf
     (calculateDCF
        (sampleFinancials [sampleIncome ''2023'' 100000000 3.5 10000000]
           [sampleBalance ''2023'' 50000000 30000000] [])
        sampleQuote (sampleParams 0.10 None)) = []"
  using
    C1_refuses_nonpositive_fcf [of
      "sampleFinancials [sampleIncome ''2023'' 100000000 3.5 10000000]
         [sampleBalance ''2023'' 50000000 30000000] [sampleCashFlow ''2023'' (- 5000000)]"
      sampleQuote "sampleParams 0.10 None"]
    C1_refuses_nonpositive_fcf [of
      "sampleFinancials [sampleIncome ''2023'' 100000000 3.5 10000000]
         [sampleBalance ''2023'' 50000000 30000000] []"
      sampleQuote "sampleParams 0.10 None"]
  by (simp add: sampleFinancials_def sampleCashFlow_def)

text \<open>
  C10. With a positive starting free cash flow, when the most recent income record is
  absent or reports zero shares outstanding, \<open>calculateDCF\<close> computes (it starts from
  that cash flow and projects every year) and its divisor is 1: the intrinsic value is
  the enterprise value less net debt, floored at 0.
\<close>

theorem C10_shares_default_to_one:
  assumes "cashFlowStatements f = cf # cfs" and "0 < freeCashFlow cf"
    and "incomeStatements f = [] \<or> sharesOutstanding (hd (incomeStatements f)) = 0"
    and "1 \<le> DCFParams.projectionYears p" and "DCFParams.discountRate p \<noteq> - 1"
  shows "DCFResult.intrinsicValue (calculateDCF f q p) =
           max 0 (enterpriseValue (calculateDCF f q p)
                  - (case balanceSheets f of [] \<Rightarrow> 0 | b # _ \<Rightarrow> totalDebt b - cash b)) \<and>
         calculateDCF f q p \<noteq> createNegativeFcfResult p \<and>
         startingFcf (assumptions (calculateDCF f q p)) = freeCashFlow cf \<and>
         length (projectedFcf (calculateDCF f q p)) = DCFParams.projectionYears p"
proof -
  have fcf: "field_or (cashFlowStatements f) 0 freeCashFlow 0 = freeCashFlow cf"
    using assms(1) by simp
  have shares: "field_or (incomeStatements f) 0 sharesOutstanding 1 = 1"
  proof (cases "incomeStatements f")
    case Nil
    then show ?thesis by simp
  next
    case (Cons i incs)
    with assms(3) show ?thesis by (simp add: or_default_def)
  qed
  have debt: "field_or (balanceSheets f) 0 totalDebt 0 - field_or (balanceSheets f) 0 cash 0 =
               (case balanceSheets f of [] \<Rightarrow> 0 | b # _ \<Rightarrow> totalDebt b - cash b)"
    by (cases "balanceSheets f") simp_all
  have start: "startingFcf (assumptions (calculateDCF f q p)) = freeCashFlow cf"
    using assms(2) by (simp add: calculateDCF_def Let_def fcf)
  have "createNegativeFcfResult p \<noteq> calculateDCF f q p"
  proof
    assume "createNegativeFcfResult p = calculateDCF f q p"
    then have "startingFcf (assumptions (createNegativeFcfResult p)) = freeCashFlow cf"
      using start by simp
    with assms(2) show False by (simp add: createNegativeFcfResult_def)
  qed
  moreover have "DCFResult.intrinsicValue (calculateDCF f q p) =
           max 0 (enterpriseValue (calculateDCF f q p)
                  - (case balanceSheets f of [] \<Rightarrow> 0 | b # _ \<Rightarrow> totalDebt b - cash b))"
    using assms(2) by (simp add: calculateDCF_def Let_def fcf shares debt)
  moreover have "length (projectedFcf (calculateDCF f q p)) = DCFParams.projectionYears p"
    using assms(2) by (simp add: calculateDCF_def Let_def fcf)
  ultimately show ?thesis using start by simp
qed

theorem C10_shares_default_witness:
  "startingFcf (assumptions
     (calculateDCF
        (sampleFinancials [sampleIncome ''2023'' 100000000 3.5 0]
           [sampleBalance ''2023'' 50000000 30000000] [sampleCashFlow ''2023'' 35000000])
        sampleQuote (sampleParams 0.10 None))) = 35000000 \<and>
   length (projectedFcf
     (calculateDCF (sampleFinancials [] [] [sampleCashFlow ''2023'' 35000000])
        sampleQuote (sampleParams 0.10 None))) = 10"
  using
    C10_shares_default_to_one [of
      "sampleFinancials [sampleIncome ''2023'' 100000000 3.5 0]
         [sampleBalance ''2023'' 50000000 30000000] [sampleCashFlow ''2023'' 35000000]"
      "sampleCashFlow ''2023'' 35000000" "[]" "sampleParams 0.10 None" sampleQuote]
    C10_shares_default_to_one [of
      "sampleFinancials [] [] [sampleCashFlow ''2023'' 35000000]"
      "sampleCashFlow ''2023'' 35000000" "[]" "sampleParams 0.10 None" sampleQuote]
  by (simp add: sampleFinancials_def sampleCashFlow_def sampleIncome_def sampleParams_def)

text \<open>
  C3, at a history that yields two growth candidates. The free-cash-flow CAGR is 0.1, the
  revenue CAGR is 0, and EPS yields none. \<open>estimateGrowthRate\<close> takes the element at index
  \<open>floor(2 / 2) = 1\<close> of the sorted list, the larger of the two, and returns 0.08; that is
  the growth rate \<open>calculateDCF\<close> then uses.
\<close>

theorem C3_two_candidates_take_larger:
  "growthCandidates twoCandidateFinancials = [0.1, 0] \<and>
   estimateGrowthRate twoCandidateFinancials = 0.08 \<and>
   estimatedGrowthRate (assumptions
     (calculateDCF twoCandidateFinancials sampleQuote (sampleParams 0.10 None))) = 0.08"
proof -
  have c: "growthCandidates twoCandidateFinancials = [0.1, 0]"
    by (simp add: growthCandidates_def twoCandidateFinancials_def sampleFinancials_def
        sampleCashFlow_def sampleIncome_def growthCandidate_def calculateCAGR_def js_index_def
        Let_def powr_half_sqrt real_sqrt_divide)
  have e: "estimateGrowthRate twoCandidateFinancials = 0.08"
    by (simp add: estimateGrowthRate_def c Let_def)
  have "0 < field_or (cashFlowStatements twoCandidateFinancials) 0 freeCashFlow 0"
    by (simp add: twoCandidateFinancials_def sampleFinancials_def sampleCashFlow_def)
  then have "estimatedGrowthRate (assumptions
     (calculateDCF twoCandidateFinancials sampleQuote (sampleParams 0.10 None))) = 0.08"
    by (simp add: calculateDCF_growth e sampleParams_def)
  with c e show ?thesis by simp
qed

section \<open>Ratio calculator: properties\<close>

lemma years_of_history: "min (int (length (x # xs)) - 1) 5 = int (min (length xs) 5)"
  by simp

lemma growth_fields_present:
  assumes "incomeStatements f = income # incs" and "balanceSheets f = balance # bals"
    and "cashFlowStatements f = cashFlow # cfs"
  shows "let r = calculateFinancialRatios f q;
             years = min (length incs) 5;
             fcfYears = min (length cfs) 5;
             startRevenue = revenue ((income # incs) ! years);
             startEps = max (eps ((income # incs) ! years)) 0.01;
             endEps = max (eps income) 0.01;
             startFcf = max (freeCashFlow ((cashFlow # cfs) ! fcfYears)) 1;
             endFcf = max (freeCashFlow cashFlow) 1
         in revenueGrowth5Y r =
              (if years = 0 \<or> startRevenue \<le> 0 \<or> revenue income \<le> 0 then None
               else Some ((revenue income / startRevenue) powr (1 / real years) - 1)) \<and>
            epsGrowth5Y r =
              (if years = 0 then None
               else Some ((endEps / startEps) powr (1 / real years) - 1)) \<and>
            fcfGrowth5Y r =
              (if fcfYears = 0 then None
               else Some ((endFcf / startFcf) powr (1 / real fcfYears) - 1))"
proof -
  define n where "n = min (length incs) 5"
  define m where "m = min (length cfs) 5"
  have y: "min (int (length (incomeStatements f)) - 1) 5 = int n"
    unfolding assms n_def by (rule years_of_history)
  have z: "min (int (length (cashFlowStatements f)) - 1) 5 = int m"
    unfolding assms m_def by (rule years_of_history)
  have fi: "field_or (incomeStatements f) (int n) g 0 = g ((income # incs) ! n)" for g
    unfolding assms by (subst field_or_nat) (simp_all add: n_def)
  have fc: "field_or (cashFlowStatements f) (int m) g 0 = g ((cashFlow # cfs) ! m)" for g
    unfolding assms by (subst field_or_nat) (simp_all add: m_def)
  have r: "revenueGrowth5Y (calculateFinancialRatios f q) =
      (if int n > 0
       then calculateCAGR (revenue ((income # incs) ! n)) (revenue income) (int n)
       else None)"
    unfolding calculateFinancialRatios_def Let_def y z fi fc
    by (simp add: assms)
  have e: "epsGrowth5Y (calculateFinancialRatios f q) =
      (if int n > 0
       then calculateCAGR (max (eps ((income # incs) ! n)) 0.01) (max (eps income) 0.01) (int n)
       else None)"
    unfolding calculateFinancialRatios_def Let_def y z fi fc
    by (simp add: assms)
  have c: "fcfGrowth5Y (calculateFinancialRatios f q) =
      (if int m > 0
       then calculateCAGR (max (freeCashFlow ((cashFlow # cfs) ! m)) 1)
              (max (freeCashFlow cashFlow) 1) (int m)
       else None)"
    unfolding calculateFinancialRatios_def Let_def y z fi fc
    by (simp add: assms)
  show ?thesis
    unfolding Let_def n_def [symmetric] m_def [symmetric] r e c
    by (auto simp add: calculateCAGR_def max_def)
qed

lemma growth_fields_default:
  assumes "incomeStatements f = [] \<or> balanceSheets f = [] \<or> cashFlowStatements f = []"
  shows "calculateFinancialRatios f q = getDefaultRatios"
proof -
  consider "incomeStatements f = []" | "balanceSheets f = []" | "cashFlowStatements f = []"
    using assms by blast
  then show ?thesis
  proof cases
    case 1
    then show ?thesis by (simp add: calculateFinancialRatios_def)
  next
    case 2
    then show ?thesis
      by (cases "js_index (incomeStatements f) 0") (simp_all add: calculateFinancialRatios_def)
  next
    case 3
    then show ?thesis
      by (cases "js_index (incomeStatements f) 0"; cases "js_index (balanceSheets f) 0")
        (simp_all add: calculateFinancialRatios_def)
  qed
qed

text \<open>
  C7 (as the code has it). For every statement series: when the most recent income,
  balance or cash-flow record is missing, the three growth fields are null. Otherwise
  they are CAGRs over \<open>min(availableYears - 1, 5)\<close> years, and all are null when that
  year count is zero. \<open>revenueGrowth5Y\<close> is null as well whenever its start or end value is
  not strictly positive. \<open>epsGrowth5Y\<close> and \<open>fcfGrowth5Y\<close> are computed from the start and
  end values floored at 0.01 and at 1, so with a positive year count they are never null.
\<close>

theorem C7_growth_fields:
  "let r = calculateFinancialRatios f q
   in case (incomeStatements f, balanceSheets f, cashFlowStatements f) of
        (income # incs, balance # bals, cashFlow # cfs) \<Rightarrow>
          (let years = min (length incs) 5;
               fcfYears = min (length cfs) 5;
               startRevenue = revenue ((income # incs) ! years);
               startEps = max (eps ((income # incs) ! years)) 0.01;
               endEps = max (eps income) 0.01;
               startFcf = max (freeCashFlow ((cashFlow # cfs) ! fcfYears)) 1;
               endFcf = max (freeCashFlow cashFlow) 1
           in revenueGrowth5Y r =
                (if years = 0 \<or> startRevenue \<le> 0 \<or> revenue income \<le> 0 then None
                 else Some ((revenue income / startRevenue) powr (1 / real years) - 1)) \<and>
              epsGrowth5Y r =
                (if years = 0 then None
                 else Some ((endEps / startEps) powr (1 / real years) - 1)) \<and>
              fcfGrowth5Y r =
                (if fcfYears = 0 then None
                 else Some ((endFcf / startFcf) powr (1 / real fcfYears) - 1)))
      | _ \<Rightarrow> revenueGrowth5Y r = None \<and> epsGrowth5Y r = None \<and> fcfGrowth5Y r = None"
proof (cases "incomeStatements f = [] \<or> balanceSheets f = [] \<or> cashFlowStatements f = []")
  case True
  then have "calculateFinancialRatios f q = getDefaultRatios"
    by (rule growth_fields_default)
  then have n: "revenueGrowth5Y (calculateFinancialRatios f q) = None \<and>
      epsGrowth5Y (calculateFinancialRatios f q) = None \<and>
      fcfGrowth5Y (calculateFinancialRatios f q) = None"
    by (simp add: getDefaultRatios_def)
  show ?thesis
    using True n
    by (cases "incomeStatements f"; cases "balanceSheets f"; cases "cashFlowStatements f")
      (simp_all add: Let_def)
next
  case False
  then obtain income incs balance bals cashFlow cfs
    where l: "incomeStatements f = income # incs" "balanceSheets f = balance # bals"
      "cashFlowStatements f = cashFlow # cfs"
    by (meson list.exhaust)
  show ?thesis
    using growth_fields_present [OF l, of q] by (simp add: l)
qed

theorem C7_growth_fields_witness:
  "revenueGrowth5Y (calculateFinancialRatios lossYearFinancials None) = Some 0 \<and>
   revenueGrowth5Y
     (calculateFinancialRatios
        (sampleFinancials [sampleIncome ''2023'' 100 2 10] [sampleBalance ''2023'' 50 30]
           [sampleCashFlow ''2023'' 10]) None) = None \<and>
   epsGrowth5Y
     (calculateFinancialRatios
        (sampleFinancials [sampleIncome ''2023'' 100 2 10, sampleIncome ''2022'' 90 1 10] []
           [sampleCashFlow ''2023'' 10]) None) = None"
  using
    C7_growth_fields [of lossYearFinancials None]
    C7_growth_fields [of
      "sampleFinancials [sampleIncome ''2023'' 100 2 10] [sampleBalance ''2023'' 50 30]
         [sampleCashFlow ''2023'' 10]" None]
    C7_growth_fields [of
      "sampleFinancials [sampleIncome ''2023'' 100 2 10, sampleIncome ''2022'' 90 1 10] []
         [sampleCashFlow ''2023'' 10]" None]
  by (simp add: lossYearFinancials_def sampleFinancials_def sampleIncome_def Let_def)

text \<open>
  C7 as claimed fails. The earlier of two years has an EPS of -1 and a free cash flow of
  -5, neither strictly positive, yet \<open>epsGrowth5Y\<close> and \<open>fcfGrowth5Y\<close> are not null: they are
  the growth from the substitutes 0.01 and 1.
\<close>

theorem C7_clamped_substitute:
  "eps (incomeStatements lossYearFinancials ! 1) \<le> 0 \<and>
   epsGrowth5Y (calculateFinancialRatios lossYearFinancials None) = Some 199 \<and>
   freeCashFlow (cashFlowStatements lossYearFinancials ! 1) \<le> 0 \<and>
   fcfGrowth5Y (calculateFinancialRatios lossYearFinancials None) = Some 9"
  by (simp add: calculateFinancialRatios_def lossYearFinancials_def sampleFinancials_def
      sampleIncome_def sampleBalance_def sampleCashFlow_def Let_def field_or_def js_index_def
      calculateCAGR_def or_default_def)

section \<open>Moat scorer: properties\<close>

lemma fold_max_Max: "fold max xs (x::real) = Max (set (x # xs))"
proof (induction xs arbitrary: x)
  case Nil
  show ?case by simp
next
  case (Cons a xs)
  have "fold max (a # xs) x = Max (set (max a x # xs))"
    using Cons.IH [of "max a x"] by simp
  also have "\<dots> = Max (insert a (insert x (set xs)))"
    by (cases "xs = []") (simp_all add: max.assoc max.commute max.left_commute)
  finally show ?case by (simp add: insert_commute)
qed

lemma analyzeMoat_overallScore:
  "overallScore (analyzeMoat now f q p) =
     (let ratios = calculateFinancialRatios f (Some q)
      in Math_max (MoatDimension.score (analyzeBrandPower f ratios))
           [MoatDimension.score (analyzeCostAdvantage f ratios),
            MoatDimension.score (analyzeNetworkEffect f ratios),
            MoatDimension.score (analyzeSwitchingCosts f ratios),
            MoatDimension.score (analyzeScaleEconomies f q p ratios)])"
  by (simp add: analyzeMoat_def Let_def)

lemma analyzeMoat_moatRating:
  "moatRating (analyzeMoat now f q p) =
     (if overallScore (analyzeMoat now f q p) \<ge> 4 then Wide
      else if overallScore (analyzeMoat now f q p) \<ge> 2.5 then Narrow else MoatNone)"
  by (simp add: analyzeMoat_def Let_def)

lemma analyzeMoat_dimensions:
  "dimensions (analyzeMoat now f q p) =
     (let ratios = calculateFinancialRatios f (Some q)
      in \<lparr> brandPower = analyzeBrandPower f ratios,
           costAdvantage = analyzeCostAdvantage f ratios,
           networkEffect = analyzeNetworkEffect f ratios,
           switchingCosts = analyzeSwitchingCosts f ratios,
           scaleEconomies = analyzeScaleEconomies f q p ratios \<rparr>)"
  by (simp add: analyzeMoat_def Let_def)

lemma reduceSum_sum_list: "reduceSum xs = sum_list xs"
  by (simp add: reduceSum_def fold_plus_sum)

lemma fold_squares:
  "fold (\<lambda>val sum. sum + (val - m) ^ 2) xs (s::real) =
     s + sum_list (map (\<lambda>x. (x - m) ^ 2) xs)"
  by (induction xs arbitrary: s) simp_all

text \<open>The scores of the three flat years of \<open>twoCandidateFinancials\<close>.\<close>

lemma sample_ratios:
  "FinancialRatios.grossMargin
     (calculateFinancialRatios twoCandidateFinancials (Some sampleQuote)) = 3 / 5"
  "FinancialRatios.operatingMargin
     (calculateFinancialRatios twoCandidateFinancials (Some sampleQuote)) = 9 / 20"
  "revenueGrowth5Y (calculateFinancialRatios twoCandidateFinancials (Some sampleQuote)) = Some 0"
  by (simp_all add: calculateFinancialRatios_def twoCandidateFinancials_def sampleFinancials_def
      sampleIncome_def sampleBalance_def sampleCashFlow_def Let_def field_or_def js_index_def
      calculateCAGR_def or_default_def)

lemma sample_statements:
  "map revenue (incomeStatements twoCandidateFinancials) = [100, 100, 100]"
  "map (\<lambda>stmt. if revenue stmt > 0 then grossProfit stmt / revenue stmt else 0)
     (incomeStatements twoCandidateFinancials) = [3 / 5, 3 / 5, 3 / 5]"
  "map (\<lambda>stmt. if revenue stmt > 0 then operatingIncome stmt / revenue stmt else 0)
     (incomeStatements twoCandidateFinancials) = [9 / 20, 9 / 20, 9 / 20]"
  "map (\<lambda>stmt. if revenue stmt > 0 then IncomeStatement.netIncome stmt / revenue stmt else 0)
     (incomeStatements twoCandidateFinancials) = [7 / 20, 7 / 20, 7 / 20]"
  by (simp_all add: twoCandidateFinancials_def sampleFinancials_def sampleIncome_def)

lemma stability_constant:
  "calculateStability [100, 100, 100] = 1" "calculateStability [3 / 5, 3 / 5, 3 / 5] = 1"
  by (simp_all add: calculateStability_def reduceSum_def Let_def)

lemma sample_scores:
  "MoatDimension.score (analyzeBrandPower twoCandidateFinancials
     (calculateFinancialRatios twoCandidateFinancials (Some sampleQuote))) = 4"
  "MoatDimension.score (analyzeCostAdvantage twoCandidateFinancials
     (calculateFinancialRatios twoCandidateFinancials (Some sampleQuote))) = 3"
  "MoatDimension.score (analyzeNetworkEffect twoCandidateFinancials
     (calculateFinancialRatios twoCandidateFinancials (Some sampleQuote))) = 1"
  "MoatDimension.score (analyzeSwitchingCosts twoCandidateFinancials
     (calculateFinancialRatios twoCandidateFinancials (Some sampleQuote))) = 9 / 2"
  "MoatDimension.score (analyzeScaleEconomies twoCandidateFinancials sampleQuote sampleProfile
     (calculateFinancialRatios twoCandidateFinancials (Some sampleQuote))) = 1"
proof -
  show "MoatDimension.score (analyzeBrandPower twoCandidateFinancials
     (calculateFinancialRatios twoCandidateFinancials (Some sampleQuote))) = 4"
    by (simp add: analyzeBrandPower_def sample_ratios sample_statements stability_constant
        Let_def)
  show "MoatDimension.score (analyzeCostAdvantage twoCandidateFinancials
     (calculateFinancialRatios twoCandidateFinancials (Some sampleQuote))) = 3"
    by (simp add: analyzeCostAdvantage_def sample_ratios sample_statements Let_def
        or_default_def)
  show "MoatDimension.score (analyzeNetworkEffect twoCandidateFinancials
     (calculateFinancialRatios twoCandidateFinancials (Some sampleQuote))) = 1"
    by (simp add: analyzeNetworkEffect_def sample_ratios sample_statements Let_def)
  show "MoatDimension.score (analyzeSwitchingCosts twoCandidateFinancials
     (calculateFinancialRatios twoCandidateFinancials (Some sampleQuote))) = 9 / 2"
    by (simp add: analyzeSwitchingCosts_def sample_ratios sample_statements stability_constant
        Let_def)
  show "MoatDimension.score (analyzeScaleEconomies twoCandidateFinancials sampleQuote
     sampleProfile (calculateFinancialRatios twoCandidateFinancials (Some sampleQuote))) = 1"
    by (simp add: analyzeScaleEconomies_def sampleQuote_def sampleProfile_def Let_def)
qed

text \<open>
  C8 (as the code has it). The stability metric is 1 for fewer than two values and 0 when
  there are at least two values and their mean is zero; otherwise it is one minus the
  coefficient of variation, clamped to the interval from 0 to 1.
\<close>

theorem C8_stability:
  "(length vs < 2 \<longrightarrow> calculateStability vs = 1) \<and>
   (2 \<le> length vs \<and> spec_mean vs = 0 \<longrightarrow> calculateStability vs = 0) \<and>
   (2 \<le> length vs \<and> spec_mean vs \<noteq> 0 \<longrightarrow>
      calculateStability vs = max 0 (min 1 (1 - spec_coefficientOfVariation vs)))"
  by (simp add: calculateStability_def spec_mean_def spec_coefficientOfVariation_def
      reduceSum_sum_list fold_squares Let_def)

theorem C8_stability_witness:
  "calculateStability [] = 1 \<and> calculateStability [1, - 1] = 0 \<and>
   calculateStability [3, 3] = 1 \<and> calculateStability [1, 3] = 1 / 2"
  using C8_stability [of "[]"] C8_stability [of "[1, - 1]"] C8_stability [of "[3, 3]"]
    C8_stability [of "[1, 3]"]
  by (simp add: spec_mean_def spec_coefficientOfVariation_def)

text \<open>
  C8 as claimed fails: the values 1 and -1 have mean zero and their stability is 0, not 1.
\<close>

theorem C8_zero_mean_is_zero:
  "spec_mean [1, - 1] = 0 \<and> calculateStability [1, - 1] = 0 \<and>
   calculateStability [1, - 1] \<noteq> 1"
  by (simp add: spec_mean_def calculateStability_def reduceSum_def Let_def)

text \<open>
  C5. The overall score of \<open>analyzeMoat\<close> is the maximum of the five dimension scores it
  reports; the rating is wide exactly when that score is at least 4, narrow exactly when
  it is at least 2.5 and below 4, and none exactly when it is below 2.5.
\<close>

theorem C5_overall_is_max:
  "let r = analyzeMoat now f q p; d = dimensions r
   in overallScore r =
        Max {MoatDimension.score (brandPower d), MoatDimension.score (costAdvantage d),
             MoatDimension.score (networkEffect d), MoatDimension.score (switchingCosts d),
             MoatDimension.score (scaleEconomies d)} \<and>
      (moatRating r = Wide \<longleftrightarrow> overallScore r \<ge> 4) \<and>
      (moatRating r = Narrow \<longleftrightarrow> 2.5 \<le> overallScore r \<and> overallScore r < 4) \<and>
      (moatRating r = MoatNone \<longleftrightarrow> overallScore r < 2.5)"
proof -
  define r where "r = analyzeMoat now f q p"
  define d where "d = dimensions r"
  have o: "overallScore r =
        Max {MoatDimension.score (brandPower d), MoatDimension.score (costAdvantage d),
             MoatDimension.score (networkEffect d), MoatDimension.score (switchingCosts d),
             MoatDimension.score (scaleEconomies d)}"
    unfolding d_def r_def analyzeMoat_overallScore analyzeMoat_dimensions Let_def
      Math_max_def fold_max_Max
    by simp
  have m: "moatRating r =
      (if overallScore r \<ge> 4 then Wide else if overallScore r \<ge> 2.5 then Narrow else MoatNone)"
    unfolding r_def by (rule analyzeMoat_moatRating)
  have w: "moatRating r = Wide \<longleftrightarrow> overallScore r \<ge> 4"
    unfolding m by simp
  have n: "moatRating r = Narrow \<longleftrightarrow> 2.5 \<le> overallScore r \<and> overallScore r < 4"
    unfolding m by auto
  have e: "moatRating r = MoatNone \<longleftrightarrow> overallScore r < 2.5"
    unfolding m by auto
  show ?thesis
    unfolding Let_def r_def [symmetric] d_def [symmetric]
    using o w n e by blast
qed

theorem C5_overall_is_max_witness:
  "overallScore (analyzeMoat 0 twoCandidateFinancials sampleQuote sampleProfile) = 9 / 2 \<and>
   moatRating (analyzeMoat 0 twoCandidateFinancials sampleQuote sampleProfile) = Wide"
  using C5_overall_is_max [of 0 twoCandidateFinancials sampleQuote sampleProfile]
  by (simp add: Let_def analyzeMoat_dimensions sample_scores)

section \<open>Discounted cash flow: the value in closed form\<close>

lemma fold_discount:
  "fold (\<lambda>year pv. pv + (pre @ rest) ! (year - 1) / c ^ year)
     [Suc (length pre)..<Suc (length pre + length rest)] acc = acc + discSum c (length pre) rest"
proof (induction rest arbitrary: pre acc)
  case Nil
  show ?case by simp
next
  case (Cons v rest)
  have u: "[Suc (length pre)..<Suc (length pre + length (v # rest))] =
        Suc (length pre) # [Suc (length (pre @ [v]))..<Suc (length (pre @ [v]) + length rest)]"
    by (subst upt_conv_Cons) simp_all
  have "fold (\<lambda>year pv. pv + (pre @ v # rest) ! (year - 1) / c ^ year)
     [Suc (length pre)..<Suc (length pre + length (v # rest))] acc =
     fold (\<lambda>year pv. pv + ((pre @ [v]) @ rest) ! (year - 1) / c ^ year)
       [Suc (length (pre @ [v]))..<Suc (length (pre @ [v]) + length rest)]
       (acc + v / c ^ Suc (length pre))"
    unfolding u by simp
  also have "\<dots> = (acc + v / c ^ Suc (length pre)) + discSum c (length (pre @ [v])) rest"
    by (rule Cons.IH)
  finally show ?case by simp
qed

lemma presentValue_discSum:
  assumes "length rest = n"
  shows "presentValue d rest n = discSum (1 + d) 0 rest"
  using fold_discount [of "[]" rest "1 + d" 0] assms
  by (simp add: presentValue_def)

lemma project_horner:
  assumes "c \<noteq> 0"
  shows "discSum c k (projectFcf g s n years fcf)
           + last (fcf # projectFcf g s n years fcf) * K / c ^ (k + length years)
         = fcf / c ^ k * horner (map (\<lambda>y. (1 + (g - (g - s) * (real y / real n))) / c) years) K"
proof (induction years arbitrary: k fcf)
  case Nil
  show ?case by simp
next
  case (Cons y ys)
  define fcf' where "fcf' = fcf * (1 + (g - (g - s) * (real y / real n)))"
  have pj: "projectFcf g s n (y # ys) fcf = fcf' # projectFcf g s n ys fcf'"
    by (simp add: fcf'_def Let_def)
  have l: "last (fcf # projectFcf g s n (y # ys) fcf) = last (fcf' # projectFcf g s n ys fcf')"
    unfolding pj by simp
  have "discSum c k (projectFcf g s n (y # ys) fcf)
           + last (fcf # projectFcf g s n (y # ys) fcf) * K / c ^ (k + length (y # ys))
        = fcf' / c ^ Suc k
          + (discSum c (Suc k) (projectFcf g s n ys fcf')
             + last (fcf' # projectFcf g s n ys fcf') * K / c ^ (Suc k + length ys))"
    unfolding l unfolding pj by simp
  also have "\<dots> = fcf' / c ^ Suc k
          + fcf' / c ^ Suc k * horner (map (\<lambda>y. (1 + (g - (g - s) * (real y / real n))) / c) ys) K"
    by (simp only: Cons.IH)
  also have "\<dots> = fcf / c ^ k *
       horner (map (\<lambda>y. (1 + (g - (g - s) * (real y / real n))) / c) (y # ys)) K"
    using assms by (simp add: fcf'_def field_simps)
  finally show ?case .
qed

text \<open>The two loops and the terminal value of \<open>calculateDCF\<close>, in closed form.\<close>

lemma enterprise_horner:
  fixes g s fcf d :: real
  assumes "1 \<le> n" and "1 + d \<noteq> 0"
  defines "projected \<equiv> projectFcf g s n [1..<Suc n] fcf"
  shows "presentValue d projected n + projected ! (n - 1) * (1 + s) / (d - s) / (1 + d) ^ n
         = fcf * horner (dcfRatios g s d n [1..<Suc n]) ((1 + s) / (d - s))"
proof -
  have len: "length projected = n" by (simp add: projected_def)
  then have ne: "projected \<noteq> []" using assms(1) by auto
  have "projected ! (n - 1) = last projected"
    using ne len by (simp add: last_conv_nth)
  also have "\<dots> = last (fcf # projected)" using ne by simp
  finally have l: "projected ! (n - 1) = last (fcf # projected)" .
  have "presentValue d projected n + last (fcf # projected) * ((1 + s) / (d - s)) / (1 + d) ^ (0 + length [1..<Suc n])
      = fcf / (1 + d) ^ 0 * horner (dcfRatios g s d n [1..<Suc n]) ((1 + s) / (d - s))"
    unfolding presentValue_discSum [OF len] unfolding projected_def dcfRatios_def yearRatio_def
    by (rule project_horner [OF assms(2)])
  then have "presentValue d projected n
        + last (fcf # projected) * ((1 + s) / (d - s)) / (1 + d) ^ n
      = fcf * horner (dcfRatios g s d n [1..<Suc n]) ((1 + s) / (d - s))"
    by (simp del: upt_Suc)
  then show ?thesis unfolding l by (simp del: upt_Suc)
qed

lemma horner_nonneg:
  assumes "\<forall>r\<in>set rs. 0 \<le> r" and "0 \<le> k"
  shows "0 \<le> horner rs k"
  using assms by (induction rs) simp_all

lemma horner_mono:
  assumes "list_all2 (\<le>) rs rs'" and "\<forall>r\<in>set rs. 0 \<le> r" and "0 \<le> k" and "k \<le> k'"
  shows "horner rs k \<le> horner rs' k'"
  using assms
proof (induction rs rs' rule: list_all2_induct)
  case Nil
  then show ?case by simp
next
  case (Cons r rs r' rs')
  have h: "horner rs k \<le> horner rs' k'" using Cons by simp
  have n: "0 \<le> horner rs k" using Cons.prems by (intro horner_nonneg) simp_all
  have "r * (1 + horner rs k) \<le> r' * (1 + horner rs' k')"
    using Cons.hyps(1) h n Cons.prems(1) by (intro mult_mono) simp_all
  then show ?case by simp
qed

lemma prod_list_nonneg':
  fixes rs :: "real list"
  assumes "\<forall>r\<in>set rs. 0 \<le> r"
  shows "0 \<le> prod_list rs"
  using assms by (induction rs) simp_all

lemma prod_list_mono':
  fixes rs rs' :: "real list"
  assumes "list_all2 (\<le>) rs rs'" and "\<forall>r\<in>set rs. 0 \<le> r"
  shows "prod_list rs \<le> prod_list rs'"
  using assms
proof (induction rs rs' rule: list_all2_induct)
  case Nil
  then show ?case by simp
next
  case (Cons r rs r' rs')
  have "r * prod_list rs \<le> r' * prod_list rs'"
    using Cons by (intro mult_mono prod_list_nonneg') simp_all
  then show ?case by simp
qed

lemma horner_append: "horner (xs @ ys) k = horner xs (horner ys k)"
  by (induction xs) simp_all

lemma horner_split: "horner rs k = horner rs 0 + prod_list rs * k"
  by (induction rs) (simp_all add: algebra_simps)

lemma list_all2_map_same:
  assumes "\<forall>x\<in>set xs. P (f x) (g x)"
  shows "list_all2 P (map f xs) (map g xs)"
  using assms by (induction xs) simp_all

section \<open>Discounted cash flow: monotonicity of the year factors\<close>

text \<open>
  Below the clamp (terminal growth rate \<open>t\<close> at most \<open>d - 0.01\<close>) every year factor and
  the terminal multiple fall as the discount rate \<open>d\<close> rises. On the clamp the terminal
  growth rate rises with \<open>d\<close>: the last year's factor times one plus the terminal multiple
  is \<open>100 * (d + 0.99)\<close>, which rises, and it is the product with the factors of the
  first two years that falls, for at least five projection years.
\<close>

lemma yearNumerator_lower:
  fixes g s b :: real
  assumes "- (1/10) \<le> g" and "0 \<le> s" and "0 \<le> b" and "b \<le> 1"
  shows "(9/10) \<le> 1 + (g - (g - s) * b)"
proof -
  have a: "0 \<le> (g + 1 / 10) * (1 - b)"
    using assms by (intro mult_nonneg_nonneg) simp_all
  have c: "0 \<le> s * b"
    using assms by (intro mult_nonneg_nonneg) simp_all
  have "0 \<le> (g + 1 / 10) * (1 - b) + s * b + b / 10"
    by (rule add_nonneg_nonneg [OF add_nonneg_nonneg [OF a c]]) (use assms in simp)
  moreover have "1 + (g - (g - s) * b) - 9 / 10 = (g + 1 / 10) * (1 - b) + s * b + b / 10"
    by (simp add: field_simps)
  ultimately show ?thesis by simp
qed

lemma yearRatio_nonneg:
  assumes "- (1/10) \<le> g" and "0 \<le> s" and "0 \<le> b" and "b \<le> 1" and "0 < 1 + d"
  shows "0 \<le> yearRatio g s d b"
  using yearNumerator_lower [OF assms(1-4)] assms(5)
  by (simp add: yearRatio_def)

lemma yearRatio_growth_mono:
  assumes "g1 \<le> g2" and "0 \<le> b" and "b \<le> 1" and "0 < 1 + d"
  shows "yearRatio g1 s d b \<le> yearRatio g2 s d b"
proof -
  have "g1 * (1 - b) \<le> g2 * (1 - b)"
    using assms by (intro mult_right_mono) simp_all
  then have "1 + (g1 - (g1 - s) * b) \<le> 1 + (g2 - (g2 - s) * b)"
    by (simp add: algebra_simps)
  then show ?thesis
    using assms(4) by (simp add: yearRatio_def divide_right_mono)
qed

lemma yearRatio_discount_mono:
  assumes "- (1/10) \<le> g" and "0 \<le> s" and "0 \<le> b" and "b \<le> 1"
    and "0 < 1 + d1" and "d1 \<le> d2"
  shows "yearRatio g s d2 b \<le> yearRatio g s d1 b"
proof -
  have "0 \<le> 1 + (g - (g - s) * b)"
    using yearNumerator_lower [OF assms(1-4)] by simp
  then show ?thesis
    unfolding yearRatio_def using assms(5,6)
    by (intro divide_left_mono) simp_all
qed

lemma yearRatio_clamped:
  assumes "1 + d \<noteq> 0"
  shows "yearRatio g (d - (1/100)) d b = b + slack g b / (1 + d)"
  using assms by (simp add: yearRatio_def slack_def field_simps)

lemma slack_lower:
  fixes g b u :: real
  assumes "- (1/10) \<le> g" and "0 \<le> b" and "b \<le> u" and "u \<le> 1"
  shows "(9/10) * (1 - u) - (1/100) * u \<le> slack g b"
proof -
  define w where "w = (1 + g) * (1 - b)"
  have "(9/10) * (1 - u) \<le> (1 + g) * (1 - b)"
    using assms by (intro mult_mono) simp_all
  then have "(9/10) * (1 - u) \<le> w" by (simp add: w_def)
  moreover have "slack g b = w - (1/100) * b" by (simp add: slack_def w_def)
  ultimately show ?thesis using assms by linarith
qed

lemma yearRatio_clamped_mono:
  assumes "- (1/10) \<le> g" and "0 \<le> b" and "b \<le> (19/20)" and "0 < 1 + d1" and "d1 \<le> d2"
  shows "yearRatio g (d2 - (1/100)) d2 b \<le> yearRatio g (d1 - (1/100)) d1 b"
proof -
  have "(9/10) * (1 - (19/20)) - (1/100) * (19/20) \<le> slack g b"
    using assms by (intro slack_lower) simp_all
  then have e: "0 \<le> slack g b" by simp
  have "slack g b / (1 + d2) \<le> slack g b / (1 + d1)"
    using e assms by (intro divide_left_mono) simp_all
  moreover have n1: "1 + d1 \<noteq> 0" and n2: "1 + d2 \<noteq> 0" using assms by simp_all
  ultimately show ?thesis
    unfolding yearRatio_clamped [OF n1] yearRatio_clamped [OF n2] by simp
qed

text \<open>
  The factors of the first two years, at most 1/5 and 2/5 into the projection, outweigh
  the rise of \<open>100 * (d + 0.99)\<close>.
\<close>

lemma head_pair_mono:
  fixes g b1 b2 d1 d2 :: real
  assumes g: "- (1/10) \<le> g"
    and b1: "0 \<le> b1" "b1 \<le> (1/5)" and b2: "0 \<le> b2" "b2 \<le> (2/5)"
    and d: "(1/100) \<le> d1" "d1 \<le> d2" "d2 \<le> (11/100)"
  shows "yearRatio g (d2 - (1/100)) d2 b1 * yearRatio g (d2 - (1/100)) d2 b2 * (100 * (d2 + (99/100)))
       \<le> yearRatio g (d1 - (1/100)) d1 b1 * yearRatio g (d1 - (1/100)) d1 b2 * (100 * (d1 + (99/100)))"
proof -
  define x1 where "x1 = 1 + d1"
  define x2 where "x2 = 1 + d2"
  define e1 where "e1 = slack g b1"
  define e2 where "e2 = slack g b2"
  define Q1 where "Q1 = b1 + e1 / x2"
  define Q2 where "Q2 = b2 + e2 / x2"
  define P1 where "P1 = b1 + e1 / x1"
  define P2 where "P2 = b2 + e2 / x1"
  define dl where "dl = (x2 - x1) / (x1 * x2)"
  have x: "(101/100) \<le> x1" "x1 \<le> x2" "x2 \<le> (111/100)"
    using d by (simp_all add: x1_def x2_def)
  have xpos: "0 < x1" "0 < x2" using x by simp_all
  have e1: "(359/500) \<le> e1"
    using slack_lower [of g b1 "(1/5)"] g b1 by (simp add: e1_def)
  have e2: "(67/125) \<le> e2"
    using slack_lower [of g b2 "(2/5)"] g b2 by (simp add: e2_def)
  have Qpos: "0 \<le> Q1" "0 \<le> Q2"
    using e1 e2 b1 b2 xpos by (simp_all add: Q1_def Q2_def)
  have dl: "0 \<le> dl" using x xpos by (simp add: dl_def)
  have P1: "P1 = Q1 + e1 * dl"
    using xpos by (simp add: P1_def Q1_def dl_def field_simps)
  have P2: "P2 = Q2 + e2 * dl"
    using xpos by (simp add: P2_def Q2_def dl_def field_simps)
  have Q1x: "Q1 * x2 = b1 * x2 + e1" using xpos by (simp add: Q1_def field_simps)
  have Q2x: "Q2 * x2 = b2 * x2 + e2" using xpos by (simp add: Q2_def field_simps)
  have "b1 * x2 \<le> (1/5) * (111/100)" using b1 x xpos by (intro mult_mono) simp_all
  then have B1: "(7/10) * (Q1 * x2) \<le> e1" using e1 by (simp add: Q1x)
  have "b2 * x2 \<le> (2/5) * (111/100)" using b2 x xpos by (intro mult_mono) simp_all
  then have B2: "(1/2) * (Q2 * x2) \<le> e2" using e2 by (simp add: Q2x)
  have "(7/10) * (Q1 * x2) * Q2 \<le> e1 * Q2" using B1 Qpos by (intro mult_right_mono) simp_all
  moreover have "(1/2) * (Q2 * x2) * Q1 \<le> e2 * Q1"
    using B2 Qpos by (intro mult_right_mono) simp_all
  ultimately have C: "(6/5) * (Q1 * Q2 * x2) \<le> e1 * Q2 + e2 * Q1"
    by (simp add: algebra_simps)
  have QQ: "0 \<le> Q1 * Q2 * x2" using Qpos xpos by simp
  have "Q1 * Q2 * x2 * x1 \<le> Q1 * Q2 * x2 * ((6/5) * (x1 - (1/100)))"
    using QQ x by (intro mult_left_mono) simp_all
  also have "\<dots> = (6/5) * (Q1 * Q2 * x2) * (x1 - (1/100))" by simp
  also have "\<dots> \<le> (e1 * Q2 + e2 * Q1) * (x1 - (1/100))"
    using C x by (intro mult_right_mono) simp_all
  finally have D: "Q1 * Q2 * x2 * x1 \<le> (e1 * Q2 + e2 * Q1) * (x1 - (1/100))" .
  have "Q1 * Q2 * (x2 - x1) = Q1 * Q2 * x2 * x1 * dl"
    using xpos by (simp add: dl_def field_simps)
  also have "\<dots> \<le> (e1 * Q2 + e2 * Q1) * (x1 - (1/100)) * dl"
    using D dl by (intro mult_right_mono) simp_all
  finally have E: "Q1 * Q2 * (x2 - x1) \<le> (e1 * Q2 + e2 * Q1) * (x1 - (1/100)) * dl" .
  have "0 \<le> e1 * e2 * dl * dl" using e1 e2 dl by simp
  then have A: "Q1 * Q2 + (e1 * Q2 + e2 * Q1) * dl \<le> P1 * P2"
    by (simp add: P1 P2 algebra_simps)
  have "Q1 * Q2 * (x2 - (1/100)) = Q1 * Q2 * (x1 - (1/100)) + Q1 * Q2 * (x2 - x1)"
    by (simp add: algebra_simps)
  also have "\<dots> \<le> Q1 * Q2 * (x1 - (1/100)) + (e1 * Q2 + e2 * Q1) * (x1 - (1/100)) * dl"
    using E by simp
  also have "\<dots> = (Q1 * Q2 + (e1 * Q2 + e2 * Q1) * dl) * (x1 - (1/100))"
    by (simp add: algebra_simps)
  also have "\<dots> \<le> P1 * P2 * (x1 - (1/100))"
    using A x by (intro mult_right_mono) simp_all
  finally have F: "Q1 * Q2 * (x2 - (1/100)) \<le> P1 * P2 * (x1 - (1/100))" .
  have n1: "1 + d1 \<noteq> 0" and n2: "1 + d2 \<noteq> 0"
    using xpos by (simp_all add: x1_def x2_def)
  have r2: "yearRatio g (d2 - (1/100)) d2 b1 = Q1" "yearRatio g (d2 - (1/100)) d2 b2 = Q2"
    unfolding yearRatio_clamped [OF n2] by (simp_all add: Q1_def Q2_def e1_def e2_def x2_def)
  have r1: "yearRatio g (d1 - (1/100)) d1 b1 = P1" "yearRatio g (d1 - (1/100)) d1 b2 = P2"
    unfolding yearRatio_clamped [OF n1] by (simp_all add: P1_def P2_def e1_def e2_def x1_def)
  have eq2: "Q1 * Q2 * (100 * (d2 + (99/100))) = 100 * (Q1 * Q2 * (x2 - (1/100)))"
    by (simp add: x2_def algebra_simps)
  have eq1: "P1 * P2 * (100 * (d1 + (99/100))) = 100 * (P1 * P2 * (x1 - (1/100)))"
    by (simp add: x1_def algebra_simps)
  show ?thesis
    unfolding r1 r2 eq1 eq2 by (rule mult_left_mono [OF F]) simp
qed

lemma dcfRatios_yearRatio:
  "dcfRatios g s d n years = map (\<lambda>y. yearRatio g s d (real y / real n)) years"
  by (simp add: dcfRatios_def)

lemma year_fraction:
  assumes "y \<le> n" and "0 < n"
  shows "0 \<le> real y / real n" and "real y / real n \<le> 1"
  using assms by simp_all

lemma year_fraction_inner:
  assumes "y < n" and "n \<le> 20"
  shows "real y / real n \<le> 19 / 20"
proof -
  have "20 * y \<le> 19 * n" using assms by simp
  then have "real (20 * y) \<le> real (19 * n)" by (rule of_nat_mono)
  then have "20 * real y \<le> 19 * real n" by simp
  moreover have "0 < real n" using assms by simp
  ultimately show ?thesis by (simp add: field_simps)
qed

lemma dcfRatios_nonneg:
  assumes "- (1/10) \<le> g" and "0 \<le> s" and "0 < 1 + d" and "0 < n" and "\<forall>y\<in>set years. y \<le> n"
  shows "\<forall>r\<in>set (dcfRatios g s d n years). 0 \<le> r"
  unfolding dcfRatios_yearRatio
  using assms by (auto intro!: yearRatio_nonneg)

lemma horner_growth_mono:
  assumes "g1 \<le> g2" and "- (1/10) \<le> g1" and "0 \<le> s" and "0 < 1 + d" and "0 < n"
    and "\<forall>y\<in>set years. y \<le> n" and "0 \<le> K"
  shows "horner (dcfRatios g1 s d n years) K \<le> horner (dcfRatios g2 s d n years) K"
proof (rule horner_mono)
  show "list_all2 (\<le>) (dcfRatios g1 s d n years) (dcfRatios g2 s d n years)"
    unfolding dcfRatios_yearRatio
    using assms by (intro list_all2_map_same) (auto intro!: yearRatio_growth_mono)
  show "\<forall>r\<in>set (dcfRatios g1 s d n years). 0 \<le> r"
    using assms by (intro dcfRatios_nonneg) simp_all
qed (use assms in simp_all)

lemma horner_unclamped_mono:
  assumes "- (1/10) \<le> g" and "0 \<le> t" and "t < d1" and "d1 \<le> d2" and "0 < n"
    and "\<forall>y\<in>set years. y \<le> n"
  shows "horner (dcfRatios g t d2 n years) ((1 + t) / (d2 - t))
       \<le> horner (dcfRatios g t d1 n years) ((1 + t) / (d1 - t))"
proof (rule horner_mono)
  have pos: "0 < 1 + d1" "0 < 1 + d2" using assms by simp_all
  show "list_all2 (\<le>) (dcfRatios g t d2 n years) (dcfRatios g t d1 n years)"
    unfolding dcfRatios_yearRatio
    using assms pos by (intro list_all2_map_same) (auto intro!: yearRatio_discount_mono)
  show "\<forall>r\<in>set (dcfRatios g t d2 n years). 0 \<le> r"
    using assms pos by (intro dcfRatios_nonneg) simp_all
  show "0 \<le> (1 + t) / (d2 - t)" using assms by simp
  show "(1 + t) / (d2 - t) \<le> (1 + t) / (d1 - t)"
    using assms by (intro divide_left_mono) simp_all
qed

lemma years_split:
  assumes "3 \<le> n"
  shows "[1..<Suc n] = 1 # 2 # [3..<n] @ [n]"
proof -
  have a: "[1..<n] = 1 # [Suc 1..<n]" using assms by (intro upt_conv_Cons) simp
  have b: "[2..<n] = 2 # [Suc 2..<n]" using assms by (intro upt_conv_Cons) simp
  have c: "Suc 1 = 2" "Suc 2 = 3" by simp_all
  have "[1..<Suc n] = [1..<n] @ [n]" using assms by (intro upt_Suc_append) simp
  then show ?thesis unfolding a c b by simp
qed

lemma last_year_terminal:
  assumes "0 < 1 + d" and "0 < n"
  shows "yearRatio g (d - 1/100) d (real n / real n)
           * (1 + (1 + (d - 1/100)) / (d - (d - 1/100))) = 100 * (d + 99/100)"
  using assms by (simp add: yearRatio_def field_simps)

text \<open>
  On the clamp the value splits into the nested sum of all years but the last, and the
  product of all their factors with \<open>100 * (d + 0.99)\<close>.
\<close>

lemma horner_clamped_split:
  assumes "3 \<le> n" and "0 < 1 + d"
  shows "horner (dcfRatios g (d - 1/100) d n [1..<Suc n]) ((1 + (d - 1/100)) / (d - (d - 1/100)))
       = horner (dcfRatios g (d - 1/100) d n (1 # 2 # [3..<n])) 0
         + yearRatio g (d - 1/100) d (1 / real n) * yearRatio g (d - 1/100) d (2 / real n)
           * (100 * (d + 99/100)) * prod_list (dcfRatios g (d - 1/100) d n [3..<n])"
proof -
  define K where "K = (1 + (d - 1/100)) / (d - (d - 1/100))"
  define mid where "mid = dcfRatios g (d - 1/100) d n [3..<n]"
  define r1 where "r1 = yearRatio g (d - 1/100) d (1 / real n)"
  define r2 where "r2 = yearRatio g (d - 1/100) d (2 / real n)"
  define rn where "rn = yearRatio g (d - 1/100) d (real n / real n)"
  have l: "rn * (1 + K) = 100 * (d + 99/100)"
    unfolding rn_def K_def using assms by (intro last_year_terminal) simp_all
  have "dcfRatios g (d - 1/100) d n [1..<Suc n] = r1 # r2 # mid @ [rn]"
    unfolding years_split [OF assms(1)]
    by (simp add: dcfRatios_yearRatio r1_def r2_def rn_def mid_def)
  then have "horner (dcfRatios g (d - 1/100) d n [1..<Suc n]) K
      = r1 * (1 + r2 * (1 + horner mid (rn * (1 + K))))"
    by (simp add: horner_append)
  also have "\<dots> = r1 * (1 + r2 * (1 + (horner mid 0 + prod_list mid * (100 * (d + 99/100)))))"
    unfolding l by (subst horner_split) simp
  also have "\<dots> = horner (r1 # r2 # mid) 0 + r1 * r2 * (100 * (d + 99/100)) * prod_list mid"
    by (simp add: algebra_simps)
  also have "r1 # r2 # mid = dcfRatios g (d - 1/100) d n (1 # 2 # [3..<n])"
    by (simp add: dcfRatios_yearRatio r1_def r2_def mid_def)
  finally show ?thesis
    unfolding K_def r1_def r2_def mid_def .
qed

lemma horner_clamped_mono:
  assumes g: "- (1/10) \<le> g" and d: "1/100 \<le> d1" "d1 \<le> d2" "d2 \<le> 11/100"
    and n: "5 \<le> n" "n \<le> 20"
  shows "horner (dcfRatios g (d2 - 1/100) d2 n [1..<Suc n])
           ((1 + (d2 - 1/100)) / (d2 - (d2 - 1/100)))
       \<le> horner (dcfRatios g (d1 - 1/100) d1 n [1..<Suc n])
           ((1 + (d1 - 1/100)) / (d1 - (d1 - 1/100)))"
proof -
  have pos: "0 < 1 + d1" "0 < 1 + d2" using d by simp_all
  have n3: "3 \<le> n" and n0: "0 < n" using n by simp_all
  have inner: "\<forall>y\<in>set years. y < n \<Longrightarrow>
      list_all2 (\<le>) (dcfRatios g (d2 - 1/100) d2 n years) (dcfRatios g (d1 - 1/100) d1 n years)"
    for years
    unfolding dcfRatios_yearRatio
    using g d n pos
    by (intro list_all2_map_same) (auto intro!: yearRatio_clamped_mono year_fraction_inner)
  have nonneg: "\<forall>y\<in>set years. y < n \<Longrightarrow>
      \<forall>r\<in>set (dcfRatios g (d2 - 1/100) d2 n years). 0 \<le> r" for years
    using g d pos n0 by (intro dcfRatios_nonneg) auto
  have nonneg1: "\<forall>y\<in>set years. y < n \<Longrightarrow>
      \<forall>r\<in>set (dcfRatios g (d1 - 1/100) d1 n years). 0 \<le> r" for years
    using g d pos n0 by (intro dcfRatios_nonneg) auto
  have A: "horner (dcfRatios g (d2 - 1/100) d2 n (1 # 2 # [3..<n])) 0
         \<le> horner (dcfRatios g (d1 - 1/100) d1 n (1 # 2 # [3..<n])) 0"
    using n by (intro horner_mono inner nonneg) auto
  have b1: "0 \<le> 1 / real n" "1 / real n \<le> 1/5"
    using n by (simp_all add: field_simps)
  have b2: "0 \<le> 2 / real n" "2 / real n \<le> 2/5"
    using n by (simp_all add: field_simps)
  have H: "yearRatio g (d2 - 1/100) d2 (1 / real n) * yearRatio g (d2 - 1/100) d2 (2 / real n)
             * (100 * (d2 + 99/100))
         \<le> yearRatio g (d1 - 1/100) d1 (1 / real n) * yearRatio g (d1 - 1/100) d1 (2 / real n)
             * (100 * (d1 + 99/100))"
    using g b1 b2 d by (intro head_pair_mono) simp_all
  have r12: "0 \<le> yearRatio g (d2 - 1/100) d2 (1 / real n)"
      "0 \<le> yearRatio g (d2 - 1/100) d2 (2 / real n)"
    using g d pos b1 b2 by (auto intro!: yearRatio_nonneg)
  have H0: "0 \<le> yearRatio g (d2 - 1/100) d2 (1 / real n)
               * yearRatio g (d2 - 1/100) d2 (2 / real n) * (100 * (d2 + 99/100))"
    using r12 d by (intro mult_nonneg_nonneg) simp_all
  have P: "prod_list (dcfRatios g (d2 - 1/100) d2 n [3..<n])
         \<le> prod_list (dcfRatios g (d1 - 1/100) d1 n [3..<n])"
    by (intro prod_list_mono' inner nonneg) auto
  have P0: "0 \<le> prod_list (dcfRatios g (d2 - 1/100) d2 n [3..<n])"
    by (intro prod_list_nonneg' nonneg) auto
  have P1: "0 \<le> prod_list (dcfRatios g (d1 - 1/100) d1 n [3..<n])"
    by (intro prod_list_nonneg' nonneg1) auto
  have B: "yearRatio g (d2 - 1/100) d2 (1 / real n) * yearRatio g (d2 - 1/100) d2 (2 / real n)
             * (100 * (d2 + 99/100)) * prod_list (dcfRatios g (d2 - 1/100) d2 n [3..<n])
         \<le> yearRatio g (d1 - 1/100) d1 (1 / real n) * yearRatio g (d1 - 1/100) d1 (2 / real n)
             * (100 * (d1 + 99/100)) * prod_list (dcfRatios g (d1 - 1/100) d1 n [3..<n])"
    by (rule mult_mono [OF H P order_trans [OF H0 H] P0])
  show ?thesis
    unfolding horner_clamped_split [OF n3 pos(1)] horner_clamped_split [OF n3 pos(2)]
    using A B by (rule add_mono)
qed

text \<open>
  A pair of discount rates lies below the clamp, on it, or on both sides of the rate
  \<open>t + 0.01\<close> where the two regimes meet.
\<close>

lemma evFactor_discount_mono:
  assumes g: "- (1/10) \<le> g" and t: "0 \<le> t" "t \<le> 1/10" and d: "1/100 \<le> d1" "d1 \<le> d2"
    and n: "5 \<le> n" "n \<le> 20"
  shows "evFactor g t d2 n \<le> evFactor g t d1 n"
proof -
  have yrs: "\<forall>y\<in>set [1..<Suc n]. y \<le> n" by auto
  have n0: "0 < n" using n by simp
  have unclamped: "evFactor g t b n \<le> evFactor g t a n"
    if "t + 1/100 \<le> a" and "a \<le> b" for a b
  proof -
    have "min t (a - 1/100) = t" and "min t (b - 1/100) = t" using that by simp_all
    moreover have "t < a" using that by simp
    ultimately show ?thesis
      unfolding evFactor_def using g t that n0 yrs
      by (simp only:) (intro horner_unclamped_mono; simp)
  qed
  have clamped: "evFactor g t b n \<le> evFactor g t a n"
    if "1/100 \<le> a" and "a \<le> b" and "b \<le> t + 1/100" for a b
  proof -
    have "min t (a - 1/100) = a - 1/100" and "min t (b - 1/100) = b - 1/100"
      using that by simp_all
    moreover have "b \<le> 11/100" using that t by simp
    ultimately show ?thesis
      unfolding evFactor_def using g that n
      by (simp only:) (intro horner_clamped_mono; simp)
  qed
  consider "t + 1/100 \<le> d1" | "d2 \<le> t + 1/100" | "d1 < t + 1/100" "t + 1/100 < d2"
    by linarith
  then show ?thesis
  proof cases
    case 1
    then show ?thesis using d by (intro unclamped) simp_all
  next
    case 2
    then show ?thesis using d by (intro clamped) simp_all
  next
    case 3
    have "evFactor g t d2 n \<le> evFactor g t (t + 1/100) n"
      using 3 by (intro unclamped) simp_all
    also have "\<dots> \<le> evFactor g t d1 n"
      using 3 d by (intro clamped) simp_all
    finally show ?thesis .
  qed
qed

lemma evFactor_growth_mono:
  assumes "- (1/10) \<le> g1" and "g1 \<le> g2" and "0 \<le> t" and "1/100 \<le> d" and "0 < n"
  shows "evFactor g1 t d n \<le> evFactor g2 t d n"
proof -
  have "0 \<le> min t (d - 1/100)" using assms by simp
  moreover have "min t (d - 1/100) < d" by (simp add: min_def)
  moreover have "0 \<le> (1 + min t (d - 1/100)) / (d - min t (d - 1/100))"
    using assms calculation by simp
  ultimately show ?thesis
    unfolding evFactor_def using assms
    by (intro horner_growth_mono) auto
qed

section \<open>Discounted cash flow: monotonicity of the intrinsic value in exact arithmetic\<close>

text \<open>
  On its computing branch \<open>calculateDCF\<close> returns an enterprise value of the starting
  cash flow times \<open>evFactor\<close>, and an intrinsic value that rises with it when the
  divisor is positive.
\<close>

lemma calculateDCF_enterpriseValue:
  assumes "0 < field_or (cashFlowStatements f) 0 freeCashFlow 0"
    and "1 \<le> DCFParams.projectionYears p" and "0 < 1 + DCFParams.discountRate p"
  shows "enterpriseValue (calculateDCF f q p) =
           field_or (cashFlowStatements f) 0 freeCashFlow 0
           * evFactor
               (max (- (1/10))
                  (min (case customGrowthRate p of None \<Rightarrow> estimateGrowthRate f | Some g \<Rightarrow> g)
                     (1/4)))
               (DCFParams.terminalGrowthRate p) (DCFParams.discountRate p)
               (DCFParams.projectionYears p)"
proof -
  define fcf where "fcf = field_or (cashFlowStatements f) 0 freeCashFlow 0"
  define g where "g = max (- (1/10))
      (min (case customGrowthRate p of None \<Rightarrow> estimateGrowthRate f | Some g \<Rightarrow> g) (1/4))"
  define d where "d = DCFParams.discountRate p"
  define n where "n = DCFParams.projectionYears p"
  define s where "s = min (DCFParams.terminalGrowthRate p) (d - 1/100)"
  have fcf: "\<not> fcf \<le> 0" using assms(1) by (simp add: fcf_def)
  have "enterpriseValue (calculateDCF f q p) =
          presentValue d (projectFcf g s n [1..<Suc n] fcf) n
          + projectFcf g s n [1..<Suc n] fcf ! (n - 1) * (1 + s) / (d - s) / (1 + d) ^ n"
    using fcf
    by (simp add: calculateDCF_def Let_def fcf_def [symmetric] g_def d_def n_def s_def
        del: upt_Suc)
  also have "\<dots> = fcf * horner (dcfRatios g s d n [1..<Suc n]) ((1 + s) / (d - s))"
    using assms(2,3) by (intro enterprise_horner) (simp_all add: n_def d_def)
  also have "\<dots> = fcf * evFactor g (DCFParams.terminalGrowthRate p) d n"
    by (simp add: evFactor_def s_def)
  finally show ?thesis
    unfolding fcf_def g_def d_def n_def .
qed

lemma calculateDCF_intrinsicValue:
  assumes "0 < field_or (cashFlowStatements f) 0 freeCashFlow 0"
  shows "DCFResult.intrinsicValue (calculateDCF f q p) =
           max 0 ((enterpriseValue (calculateDCF f q p)
                   - (field_or (balanceSheets f) 0 totalDebt 0 - field_or (balanceSheets f) 0 cash 0))
                  / field_or (incomeStatements f) 0 sharesOutstanding 1)"
  using assms by (simp add: calculateDCF_def Let_def)

lemma intrinsic_mono:
  fixes a b debt shares :: real
  assumes "a \<le> b" and "0 < shares"
  shows "max 0 ((a - debt) / shares) \<le> max 0 ((b - debt) / shares)"
proof -
  have "(a - debt) / shares \<le> (b - debt) / shares"
    using assms by (intro divide_right_mono) simp_all
  then show ?thesis by (rule max.mono [OF order_refl])
qed

text \<open>
  In exact arithmetic, for discount rates in [0.01, 0.30], a terminal growth rate in
  [0, 0.10] and 5 to 20 projection years, with every other input fixed and the most
  recent shares outstanding not negative (or no income record at all), the intrinsic
  value does not rise when the discount rate rises, and does not fall when the supplied
  custom growth rate rises. This is a fact about the formula over the reals. The program
  evaluates it in double precision, where rounding can reverse the order of the values at
  two discount rates a few units in the last place apart; the rounded results are not the
  subject of this lemma.
\<close>

lemma dcf_monotone_exact:
  fixes f :: Financials and q :: StockQuote
  assumes "0.01 \<le> d1" and "d1 \<le> d2" and "d2 \<le> 0.30" and "0 \<le> t" and "t \<le> 0.10"
    and "5 \<le> n" and "n \<le> 20" and "g1 \<le> g2"
    and "incomeStatements f = [] \<or> 0 \<le> sharesOutstanding (hd (incomeStatements f))"
  shows "DCFResult.intrinsicValue
           (calculateDCF f q \<lparr> DCFParams.discountRate = d2, terminalGrowthRate = t,
              projectionYears = n, customGrowthRate = cg \<rparr>)
         \<le> DCFResult.intrinsicValue
           (calculateDCF f q \<lparr> DCFParams.discountRate = d1, terminalGrowthRate = t,
              projectionYears = n, customGrowthRate = cg \<rparr>) \<and>
         DCFResult.intrinsicValue
           (calculateDCF f q \<lparr> DCFParams.discountRate = d1, terminalGrowthRate = t,
              projectionYears = n, customGrowthRate = Some g1 \<rparr>)
         \<le> DCFResult.intrinsicValue
           (calculateDCF f q \<lparr> DCFParams.discountRate = d1, terminalGrowthRate = t,
              projectionYears = n, customGrowthRate = Some g2 \<rparr>)"
proof (cases "0 < field_or (cashFlowStatements f) 0 freeCashFlow 0")
  case False
  then have "calculateDCF f q p = createNegativeFcfResult p" for p
    by (intro calculateDCF_refuses) simp
  then show ?thesis by (simp add: createNegativeFcfResult_def)
next
  case True
  define fcf where "fcf = field_or (cashFlowStatements f) 0 freeCashFlow 0"
  define shares where "shares = field_or (incomeStatements f) 0 sharesOutstanding 1"
  define debt where
    "debt = field_or (balanceSheets f) 0 totalDebt 0 - field_or (balanceSheets f) 0 cash 0"
  define P where "P = (\<lambda>d c. \<lparr> DCFParams.discountRate = d, terminalGrowthRate = t,
              projectionYears = n, customGrowthRate = c \<rparr>)"
  define G where "G = (\<lambda>c. max (- (1/10))
      (min (case c of None \<Rightarrow> estimateGrowthRate f | Some g \<Rightarrow> g) (1/4)))"
  have d: "1/100 \<le> d1" "d1 \<le> d2" "0 \<le> t" "t \<le> 1/10" using assms by simp_all
  have d2: "1/100 \<le> d2" using d by simp
  have fpos: "0 < fcf" using True by (simp add: fcf_def)
  have spos: "0 < shares"
  proof (cases "incomeStatements f")
    case Nil
    then show ?thesis by (simp add: shares_def)
  next
    case (Cons i incs)
    with assms(9) show ?thesis by (simp add: shares_def or_default_def)
  qed
  have ev: "enterpriseValue (calculateDCF f q (P d c)) = fcf * evFactor (G c) t d n"
    if "1/100 \<le> d" for d c
    unfolding fcf_def G_def
    using calculateDCF_enterpriseValue [of f "P d c" q] True assms(6) that
    by (simp add: P_def)
  have iv: "DCFResult.intrinsicValue (calculateDCF f q (P d c)) =
              max 0 ((fcf * evFactor (G c) t d n - debt) / shares)"
    if "1/100 \<le> d" for d c
    unfolding calculateDCF_intrinsicValue [OF True] ev [OF that] debt_def shares_def ..
  have Glow: "- (1/10) \<le> G c" for c by (simp add: G_def)
  have "evFactor (G cg) t d2 n \<le> evFactor (G cg) t d1 n"
    using Glow d assms(6,7) by (intro evFactor_discount_mono)
  then have "fcf * evFactor (G cg) t d2 n \<le> fcf * evFactor (G cg) t d1 n"
    using fpos by (intro mult_left_mono) simp_all
  then have A: "DCFResult.intrinsicValue (calculateDCF f q (P d2 cg))
       \<le> DCFResult.intrinsicValue (calculateDCF f q (P d1 cg))"
    unfolding iv [OF d(1)] iv [OF d2] using spos by (rule intrinsic_mono)
  have "G (Some g1) \<le> G (Some g2)" using assms(8) by (simp add: G_def)
  then have "evFactor (G (Some g1)) t d1 n \<le> evFactor (G (Some g2)) t d1 n"
    using Glow d assms(6) by (intro evFactor_growth_mono) simp_all
  then have "fcf * evFactor (G (Some g1)) t d1 n \<le> fcf * evFactor (G (Some g2)) t d1 n"
    using fpos by (intro mult_left_mono) simp_all
  then have B: "DCFResult.intrinsicValue (calculateDCF f q (P d1 (Some g1)))
       \<le> DCFResult.intrinsicValue (calculateDCF f q (P d1 (Some g2)))"
    unfolding iv [OF d(1)] using spos by (rule intrinsic_mono)
  from A B show ?thesis unfolding P_def by simp
qed

end
